theory Spec2Isabelle
  imports Main
begin

section \<open>Spaces, element buffers and the store\<close>

text \<open>
  Modelled from the spec: the Space collaborator and its element buffers are not part of
  the source (operator.py only calls \<^verbatim>\<open>isMember\<close>, \<^verbatim>\<open>empty\<close>, \<^verbatim>\<open>field\<close>,
  \<^verbatim>\<open>copy\<close>, \<^verbatim>\<open>+=\<close> and \<^verbatim>\<open>*=\<close> on them). A space is a value with structural
  equality carrying its scalar field; the field is the set of scalars it accepts.
\<close>

type_synonym scalar = int

record space =
  name :: nat
  field :: "scalar set"

text \<open>
  Modelled from the spec: an element buffer is a Python object (with an identity, which
  is what \<^verbatim>\<open>is\<close> compares) that refers to underlying storage (a cell of the store)
  and belongs to one space. Two distinct objects may refer to the same cell, as two
  views of one array do.
\<close>

record buffer =
  ident :: nat
  cell :: nat
  memberOf :: space

type_synonym vec = "int list"

text \<open>
  The store maps cells to their contents. \<open>nxt\<close> is the allocation counter: every
  identity and every cell below it is in use, everything from it on is free. A freshly
  allocated buffer is uninitialised: its contents are whatever the store holds there.
\<close>

record state =
  heap :: "nat \<Rightarrow> vec"
  nxt :: nat

definition isMember :: "space \<Rightarrow> buffer \<Rightarrow> bool" where
  "isMember s b = (memberOf b = s)"

definition empty_buf :: "space \<Rightarrow> state \<Rightarrow> buffer \<times> state" where
  "empty_buf s \<sigma> =
     (\<lparr>ident = nxt \<sigma>, cell = nxt \<sigma>, memberOf = s\<rparr>, \<sigma>\<lparr>nxt := Suc (nxt \<sigma>)\<rparr>)"

definition copy :: "buffer \<Rightarrow> state \<Rightarrow> buffer \<times> state" where
  "copy b \<sigma> =
     (\<lparr>ident = nxt \<sigma>, cell = nxt \<sigma>, memberOf = memberOf b\<rparr>,
      \<sigma>\<lparr>heap := (heap \<sigma>)(nxt \<sigma> := heap \<sigma> (cell b)), nxt := Suc (nxt \<sigma>)\<rparr>)"

definition vadd :: "vec \<Rightarrow> vec \<Rightarrow> vec" where
  "vadd xs ys = map2 (+) xs ys"

definition vmul :: "vec \<Rightarrow> vec \<Rightarrow> vec" where
  "vmul xs ys = map2 (*) xs ys"

definition smult :: "scalar \<Rightarrow> vec \<Rightarrow> vec" where
  "smult a xs = map ((*) a) xs"

definition iadd :: "buffer \<Rightarrow> buffer \<Rightarrow> state \<Rightarrow> state" where
  \<comment> \<open>\<^verbatim>\<open>out += tmp\<close>\<close>
  "iadd out tmp \<sigma> =
     \<sigma>\<lparr>heap := (heap \<sigma>)(cell out := vadd (heap \<sigma> (cell out)) (heap \<sigma> (cell tmp)))\<rparr>"

definition imul :: "buffer \<Rightarrow> buffer \<Rightarrow> state \<Rightarrow> state" where
  \<comment> \<open>\<^verbatim>\<open>out *= tmp\<close>\<close>
  "imul out tmp \<sigma> =
     \<sigma>\<lparr>heap := (heap \<sigma>)(cell out := vmul (heap \<sigma> (cell out)) (heap \<sigma> (cell tmp)))\<rparr>"

definition iscale :: "buffer \<Rightarrow> scalar \<Rightarrow> state \<Rightarrow> state" where
  \<comment> \<open>\<^verbatim>\<open>out *= scalar\<close>\<close>
  "iscale out a \<sigma> = \<sigma>\<lparr>heap := (heap \<sigma>)(cell out := smult a (heap \<sigma> (cell out)))\<rparr>"

definition write_buf :: "buffer \<Rightarrow> vec \<Rightarrow> state \<Rightarrow> state" where
  "write_buf out v \<sigma> = \<sigma>\<lparr>heap := (heap \<sigma>)(cell out := v)\<rparr>"

section \<open>Operators\<close>

text \<open>
  The class hierarchy of operator.py as one datatype. The three \<open>Concrete\<close>
  constructors stand for the externally supplied subclasses of \<^verbatim>\<open>Operator\<close>,
  \<^verbatim>\<open>LinearOperator\<close> and \<^verbatim>\<open>SelfAdjointOperator\<close>: each reports its domain and
  range and brings its unchecked primitive(s), which read the contents of \<^verbatim>\<open>rhs\<close> and
  write the result into \<^verbatim>\<open>out\<close>. The other constructors are the expression classes
  of the source with their fields.
\<close>

datatype operator =
    ConcreteOperator space space "vec \<Rightarrow> vec"
  | ConcreteLinearOperator space space "vec \<Rightarrow> vec" "vec \<Rightarrow> vec"
  | ConcreteSelfAdjointOperator space space "vec \<Rightarrow> vec"
  | OperatorSum operator operator
  | OperatorComposition operator operator
  | OperatorPointwiseProduct operator operator
  | OperatorLeftScalarMultiplication operator scalar
  | OperatorRightScalarMultiplication operator scalar
  | OperatorAdjoint operator
  | LinearOperatorSum operator operator
  | LinearOperatorComposition operator operator
  | LinearOperatorScalarMultiplication operator scalar

datatype reason =
    RhsNotInDomain | OutNotInRange | AliasedArguments
  | RhsNotInAdjointDomain | OutNotInAdjointRange
  | ExpectedOperator | ExpectedScalar | ExpectedOperatorOrScalar
  | RangesNotEqual | DomainsNotEqual | RangeDomainMismatch
  | ScalarNotInRangeField | ScalarNotInDomainField
  | NotALinearOperator | UnsupportedOperand

datatype error =
    TypeError reason
  | ValueError reason
  | AttributeError

fun domain :: "operator \<Rightarrow> space"
and range_op :: "operator \<Rightarrow> space" where
  "domain (ConcreteOperator d r f) = d"
| "domain (ConcreteLinearOperator d r f g) = d"
| "domain (ConcreteSelfAdjointOperator d r f) = d"
| "domain (OperatorSum op1 op2) = domain op1"
| "domain (OperatorComposition left right) = domain right"
| "domain (OperatorPointwiseProduct op1 op2) = domain op1"
| "domain (OperatorLeftScalarMultiplication op a) = domain op"
| "domain (OperatorRightScalarMultiplication op a) = domain op"
| "domain (OperatorAdjoint op) = range_op op"
| "domain (LinearOperatorSum op1 op2) = domain op1"
| "domain (LinearOperatorComposition left right) = domain right"
| "domain (LinearOperatorScalarMultiplication op a) = domain op"
| "range_op (ConcreteOperator d r f) = r"
| "range_op (ConcreteLinearOperator d r f g) = r"
| "range_op (ConcreteSelfAdjointOperator d r f) = r"
| "range_op (OperatorSum op1 op2) = range_op op1"
| "range_op (OperatorComposition left right) = range_op left"
| "range_op (OperatorPointwiseProduct op1 op2) = range_op op1"
| "range_op (OperatorLeftScalarMultiplication op a) = range_op op"
| "range_op (OperatorRightScalarMultiplication op a) = range_op op"
| "range_op (OperatorAdjoint op) = domain op"
| "range_op (LinearOperatorSum op1 op2) = range_op op1"
| "range_op (LinearOperatorComposition left right) = range_op left"
| "range_op (LinearOperatorScalarMultiplication op a) = range_op op"

text \<open>\<^verbatim>\<open>isinstance(op, LinearOperator)\<close>: the classes deriving from \<^verbatim>\<open>LinearOperator\<close>.\<close>

fun isLinearOperator :: "operator \<Rightarrow> bool" where
  "isLinearOperator (ConcreteLinearOperator d r f g) = True"
| "isLinearOperator (ConcreteSelfAdjointOperator d r f) = True"
| "isLinearOperator (OperatorAdjoint op) = True"
| "isLinearOperator (LinearOperatorSum op1 op2) = True"
| "isLinearOperator (LinearOperatorComposition left right) = True"
| "isLinearOperator (LinearOperatorScalarMultiplication op a) = True"
| "isLinearOperator _ = False"

section \<open>Evaluation\<close>

text \<open>
  \<^verbatim>\<open>applyImpl\<close>, \<^verbatim>\<open>applyAdjointImpl\<close> and the checked \<^verbatim>\<open>applyAdjoint\<close>, which
  \<^verbatim>\<open>LinearOperatorComposition.applyAdjointImpl\<close> calls on its operands. A class without
  an adjoint primitive has no attribute \<^verbatim>\<open>applyAdjointImpl\<close>.
\<close>

fun applyImpl :: "operator \<Rightarrow> buffer \<Rightarrow> buffer \<Rightarrow> state \<Rightarrow> error + state"
and applyAdjointImpl :: "operator \<Rightarrow> buffer \<Rightarrow> buffer \<Rightarrow> state \<Rightarrow> error + state"
and applyAdjoint :: "operator \<Rightarrow> buffer \<Rightarrow> buffer \<Rightarrow> state \<Rightarrow> error + state" where
  "applyImpl (ConcreteOperator d r f) rhs out \<sigma> =
     Inr (write_buf out (f (heap \<sigma> (cell rhs))) \<sigma>)"
| "applyImpl (ConcreteLinearOperator d r f g) rhs out \<sigma> =
     Inr (write_buf out (f (heap \<sigma> (cell rhs))) \<sigma>)"
| "applyImpl (ConcreteSelfAdjointOperator d r f) rhs out \<sigma> =
     Inr (write_buf out (f (heap \<sigma> (cell rhs))) \<sigma>)"
| "applyImpl (OperatorSum op1 op2) rhs out \<sigma> =
     (case empty_buf (range_op op1) \<sigma> of (tmp, \<sigma>0) \<Rightarrow>
      case applyImpl op1 rhs out \<sigma>0 of Inl e \<Rightarrow> Inl e | Inr \<sigma>1 \<Rightarrow>
      case applyImpl op2 rhs tmp \<sigma>1 of Inl e \<Rightarrow> Inl e | Inr \<sigma>2 \<Rightarrow>
      Inr (iadd out tmp \<sigma>2))"
| "applyImpl (OperatorComposition left right) rhs out \<sigma> =
     (case empty_buf (range_op right) \<sigma> of (tmp, \<sigma>0) \<Rightarrow>
      case applyImpl right rhs tmp \<sigma>0 of Inl e \<Rightarrow> Inl e | Inr \<sigma>1 \<Rightarrow>
      applyImpl left tmp out \<sigma>1)"
| "applyImpl (OperatorPointwiseProduct op1 op2) rhs out \<sigma> =
     (case empty_buf (range_op op2) \<sigma> of (tmp, \<sigma>0) \<Rightarrow>
      case applyImpl op1 rhs out \<sigma>0 of Inl e \<Rightarrow> Inl e | Inr \<sigma>1 \<Rightarrow>
      case applyImpl op2 rhs tmp \<sigma>1 of Inl e \<Rightarrow> Inl e | Inr \<sigma>2 \<Rightarrow>
      Inr (imul out tmp \<sigma>2))"
| "applyImpl (OperatorLeftScalarMultiplication op a) rhs out \<sigma> =
     (case applyImpl op rhs out \<sigma> of Inl e \<Rightarrow> Inl e | Inr \<sigma>1 \<Rightarrow>
      Inr (iscale out a \<sigma>1))"
| "applyImpl (OperatorRightScalarMultiplication op a) rhs out \<sigma> =
     (case copy rhs \<sigma> of (tmp, \<sigma>0) \<Rightarrow>
      applyImpl op tmp out (iscale tmp a \<sigma>0))"
| "applyImpl (OperatorAdjoint op) rhs out \<sigma> = applyAdjointImpl op rhs out \<sigma>"
| "applyImpl (LinearOperatorSum op1 op2) rhs out \<sigma> =
     (case empty_buf (range_op op1) \<sigma> of (tmp, \<sigma>0) \<Rightarrow>
      case applyImpl op1 rhs out \<sigma>0 of Inl e \<Rightarrow> Inl e | Inr \<sigma>1 \<Rightarrow>
      case applyImpl op2 rhs tmp \<sigma>1 of Inl e \<Rightarrow> Inl e | Inr \<sigma>2 \<Rightarrow>
      Inr (iadd out tmp \<sigma>2))"
| "applyImpl (LinearOperatorComposition left right) rhs out \<sigma> =
     (case empty_buf (range_op right) \<sigma> of (tmp, \<sigma>0) \<Rightarrow>
      case applyImpl right rhs tmp \<sigma>0 of Inl e \<Rightarrow> Inl e | Inr \<sigma>1 \<Rightarrow>
      applyImpl left tmp out \<sigma>1)"
| "applyImpl (LinearOperatorScalarMultiplication op a) rhs out \<sigma> =
     (case applyImpl op rhs out \<sigma> of Inl e \<Rightarrow> Inl e | Inr \<sigma>1 \<Rightarrow>
      Inr (iscale out a \<sigma>1))"
| "applyAdjointImpl (ConcreteLinearOperator d r f g) rhs out \<sigma> =
     Inr (write_buf out (g (heap \<sigma> (cell rhs))) \<sigma>)"
| "applyAdjointImpl (ConcreteSelfAdjointOperator d r f) rhs out \<sigma> =
     applyImpl (ConcreteSelfAdjointOperator d r f) rhs out \<sigma>"
| "applyAdjointImpl (OperatorAdjoint op) rhs out \<sigma> = applyImpl op rhs out \<sigma>"
| "applyAdjointImpl (LinearOperatorSum op1 op2) rhs out \<sigma> =
     (case empty_buf (domain op1) \<sigma> of (tmp, \<sigma>0) \<Rightarrow>
      case applyAdjointImpl op1 rhs out \<sigma>0 of Inl e \<Rightarrow> Inl e | Inr \<sigma>1 \<Rightarrow>
      case applyAdjointImpl op2 rhs tmp \<sigma>1 of Inl e \<Rightarrow> Inl e | Inr \<sigma>2 \<Rightarrow>
      Inr (iadd out tmp \<sigma>2))"
| "applyAdjointImpl (LinearOperatorComposition left right) rhs out \<sigma> =
     (case empty_buf (domain left) \<sigma> of (tmp, \<sigma>0) \<Rightarrow>
      case applyAdjoint left rhs tmp \<sigma>0 of Inl e \<Rightarrow> Inl e | Inr \<sigma>1 \<Rightarrow>
      applyAdjoint right tmp out \<sigma>1)"
| "applyAdjointImpl (LinearOperatorScalarMultiplication op a) rhs out \<sigma> =
     (case applyAdjointImpl op rhs out \<sigma> of Inl e \<Rightarrow> Inl e | Inr \<sigma>1 \<Rightarrow>
      Inr (iscale out a \<sigma>1))"
| "applyAdjointImpl (ConcreteOperator d r f) rhs out \<sigma> = Inl AttributeError"
| "applyAdjointImpl (OperatorSum op1 op2) rhs out \<sigma> = Inl AttributeError"
| "applyAdjointImpl (OperatorComposition left right) rhs out \<sigma> = Inl AttributeError"
| "applyAdjointImpl (OperatorPointwiseProduct op1 op2) rhs out \<sigma> = Inl AttributeError"
| "applyAdjointImpl (OperatorLeftScalarMultiplication op a) rhs out \<sigma> = Inl AttributeError"
| "applyAdjointImpl (OperatorRightScalarMultiplication op a) rhs out \<sigma> = Inl AttributeError"
| "applyAdjoint op rhs out \<sigma> =
     (if \<not> isLinearOperator op then Inl AttributeError
      else if \<not> isMember (range_op op) rhs then Inl (TypeError RhsNotInAdjointDomain)
      else if \<not> isMember (domain op) out then Inl (TypeError OutNotInAdjointRange)
      else if ident rhs = ident out then Inl (ValueError AliasedArguments)
      else applyAdjointImpl op rhs out \<sigma>)"

definition apply_op :: "operator \<Rightarrow> buffer \<Rightarrow> buffer \<Rightarrow> state \<Rightarrow> error + state" where
  "apply_op op rhs out \<sigma> =
     (if \<not> isMember (domain op) rhs then Inl (TypeError RhsNotInDomain)
      else if \<not> isMember (range_op op) out then Inl (TypeError OutNotInRange)
      else if ident rhs = ident out then Inl (ValueError AliasedArguments)
      else applyImpl op rhs out \<sigma>)"

definition call :: "operator \<Rightarrow> buffer \<Rightarrow> state \<Rightarrow> error + buffer \<times> state" where
  \<comment> \<open>\<^verbatim>\<open>__call__\<close>\<close>
  "call op rhs \<sigma> =
     (case empty_buf (range_op op) \<sigma> of (tmp, \<sigma>0) \<Rightarrow>
      case apply_op op rhs tmp \<sigma>0 of Inl e \<Rightarrow> Inl e | Inr \<sigma>1 \<Rightarrow> Inr (tmp, \<sigma>1))"

section \<open>Construction\<close>

text \<open>The \<^verbatim>\<open>__init__\<close> methods of the expression classes, with their checks in order.\<close>

definition new_OperatorSum :: "operator \<Rightarrow> operator \<Rightarrow> error + operator" where
  "new_OperatorSum op1 op2 =
     (if range_op op1 \<noteq> range_op op2 then Inl (TypeError RangesNotEqual)
      else if domain op1 \<noteq> domain op2 then Inl (TypeError DomainsNotEqual)
      else Inr (OperatorSum op1 op2))"

definition new_OperatorComposition :: "operator \<Rightarrow> operator \<Rightarrow> error + operator" where
  "new_OperatorComposition left right =
     (if range_op right \<noteq> domain left then Inl (TypeError RangeDomainMismatch)
      else Inr (OperatorComposition left right))"

definition new_OperatorPointwiseProduct :: "operator \<Rightarrow> operator \<Rightarrow> error + operator" where
  "new_OperatorPointwiseProduct op1 op2 =
     (if range_op op1 \<noteq> range_op op2 then Inl (TypeError RangesNotEqual)
      else if domain op1 \<noteq> domain op2 then Inl (TypeError DomainsNotEqual)
      else Inr (OperatorPointwiseProduct op1 op2))"

definition new_OperatorLeftScalarMultiplication :: "operator \<Rightarrow> scalar \<Rightarrow> error + operator" where
  "new_OperatorLeftScalarMultiplication op a =
     (if a \<notin> field (range_op op) then Inl (TypeError ScalarNotInRangeField)
      else Inr (OperatorLeftScalarMultiplication op a))"

definition new_OperatorRightScalarMultiplication :: "operator \<Rightarrow> scalar \<Rightarrow> error + operator" where
  "new_OperatorRightScalarMultiplication op a =
     (if a \<notin> field (domain op) then Inl (TypeError ScalarNotInDomainField)
      else Inr (OperatorRightScalarMultiplication op a))"

definition new_OperatorAdjoint :: "operator \<Rightarrow> error + operator" where
  "new_OperatorAdjoint op =
     (if \<not> isLinearOperator op then Inl (TypeError NotALinearOperator)
      else Inr (OperatorAdjoint op))"

definition new_LinearOperatorSum :: "operator \<Rightarrow> operator \<Rightarrow> error + operator" where
  "new_LinearOperatorSum op1 op2 =
     (if \<not> isLinearOperator op1 then Inl (TypeError NotALinearOperator)
      else if \<not> isLinearOperator op2 then Inl (TypeError NotALinearOperator)
      else if range_op op1 \<noteq> range_op op2 then Inl (TypeError RangesNotEqual)
      else if domain op1 \<noteq> domain op2 then Inl (TypeError DomainsNotEqual)
      else Inr (LinearOperatorSum op1 op2))"

definition new_LinearOperatorComposition :: "operator \<Rightarrow> operator \<Rightarrow> error + operator" where
  "new_LinearOperatorComposition left right =
     (if \<not> isLinearOperator left then Inl (TypeError NotALinearOperator)
      else if \<not> isLinearOperator right then Inl (TypeError NotALinearOperator)
      else if range_op right \<noteq> domain left then Inl (TypeError RangeDomainMismatch)
      else Inr (LinearOperatorComposition left right))"

definition new_LinearOperatorScalarMultiplication :: "operator \<Rightarrow> scalar \<Rightarrow> error + operator" where
  "new_LinearOperatorScalarMultiplication op a =
     (if \<not> isLinearOperator op then Inl (TypeError NotALinearOperator)
      else if a \<notin> field (range_op op) then Inl (TypeError ScalarNotInRangeField)
      else Inr (LinearOperatorScalarMultiplication op a))"

definition T :: "operator \<Rightarrow> error + operator" where
  \<comment> \<open>the property \<^verbatim>\<open>LinearOperator.T\<close>; other classes do not have it\<close>
  "T op = (if \<not> isLinearOperator op then Inl AttributeError else new_OperatorAdjoint op)"

section \<open>The arithmetic methods\<close>

text \<open>
  The other operand of \<^verbatim>\<open>+\<close> and \<^verbatim>\<open>*\<close> is any Python object: a
  \<^verbatim>\<open>Number\<close>, an operator, or something else.
\<close>

datatype pyobject = Number scalar | Op operator | Other

definition Operator_add :: "operator \<Rightarrow> pyobject \<Rightarrow> error + operator" where
  "Operator_add self other =
     (case other of Op B \<Rightarrow> new_OperatorSum self B | _ \<Rightarrow> Inl (TypeError ExpectedOperator))"

definition Operator_mul :: "operator \<Rightarrow> pyobject \<Rightarrow> error + operator" where
  \<comment> \<open>\<^verbatim>\<open>Operator.__mul__\<close>\<close>
  "Operator_mul self other =
     (case other of Number a \<Rightarrow> new_OperatorLeftScalarMultiplication self a
      | _ \<Rightarrow> Inl (TypeError ExpectedScalar))"

definition Operator_rmul :: "operator \<Rightarrow> pyobject \<Rightarrow> error + operator" where
  \<comment> \<open>\<^verbatim>\<open>Operator.__rmul__\<close>\<close>
  "Operator_rmul self other =
     (case other of Number a \<Rightarrow> new_OperatorRightScalarMultiplication self a
      | _ \<Rightarrow> Inl (TypeError ExpectedScalar))"

definition LinearOperator_add :: "operator \<Rightarrow> pyobject \<Rightarrow> error + operator" where
  "LinearOperator_add self other =
     (case other of
        Op B \<Rightarrow> if isLinearOperator B then new_LinearOperatorSum self B
                else Operator_add self other
      | _ \<Rightarrow> Operator_add self other)"

definition LinearOperator_mul :: "operator \<Rightarrow> pyobject \<Rightarrow> error + operator" where
  \<comment> \<open>\<^verbatim>\<open>LinearOperator.__mul__\<close>, to which \<^verbatim>\<open>__rmul__\<close> is bound as well\<close>
  "LinearOperator_mul self other =
     (case other of Number a \<Rightarrow> new_LinearOperatorScalarMultiplication self a
      | _ \<Rightarrow> Inl (TypeError ExpectedOperatorOrScalar))"

definition LinearOperator_rmul :: "operator \<Rightarrow> pyobject \<Rightarrow> error + operator" where
  "LinearOperator_rmul = LinearOperator_mul"

text \<open>
  Method lookup on an operator object: every class deriving from \<^verbatim>\<open>LinearOperator\<close>
  finds that class's methods before those of \<^verbatim>\<open>Operator\<close>.
\<close>

definition dunder_add :: "operator \<Rightarrow> pyobject \<Rightarrow> error + operator" where
  "dunder_add self = (if isLinearOperator self then LinearOperator_add self else Operator_add self)"

definition dunder_mul :: "operator \<Rightarrow> pyobject \<Rightarrow> error + operator" where
  "dunder_mul self = (if isLinearOperator self then LinearOperator_mul self else Operator_mul self)"

definition dunder_rmul :: "operator \<Rightarrow> pyobject \<Rightarrow> error + operator" where
  "dunder_rmul self = (if isLinearOperator self then LinearOperator_rmul self else Operator_rmul self)"

text \<open>
  \<open>derives_from B A\<close>: the class of \<open>B\<close> is a proper subclass of the class of \<open>A\<close>.
  Among the expression classes of the source these are the three linear combinators and
  their bases. The concrete classes are taken to derive from \<^verbatim>\<open>Operator\<close>,
  \<^verbatim>\<open>LinearOperator\<close> or \<^verbatim>\<open>SelfAdjointOperator\<close> directly, and no class derives
  from them.
\<close>

fun derives_from :: "operator \<Rightarrow> operator \<Rightarrow> bool" where
  "derives_from (LinearOperatorSum b1 b2) (OperatorSum a1 a2) = True"
| "derives_from (LinearOperatorComposition b1 b2) (OperatorComposition a1 a2) = True"
| "derives_from (LinearOperatorScalarMultiplication b1 b) (OperatorLeftScalarMultiplication a1 a) = True"
| "derives_from _ _ = False"

text \<open>
  The Python expression \<^verbatim>\<open>x * y\<close>. Python calls \<^verbatim>\<open>x.__mul__(y)\<close>; a number (or
  an object without arithmetic) on the left does not know operators, its method returns
  \<^verbatim>\<open>NotImplemented\<close>, and Python then calls the reflected \<^verbatim>\<open>y.__rmul__(x)\<close>.
  With an operator on both sides Python calls the reflected method of the right operand
  first when its class is a proper subclass of the left operand's class and brings another
  \<^verbatim>\<open>__rmul__\<close> (that of \<^verbatim>\<open>LinearOperator\<close>), and \<^verbatim>\<open>x.__mul__(y)\<close> otherwise;
  the method called raises, so no second method is tried.
\<close>

fun py_times :: "pyobject \<Rightarrow> pyobject \<Rightarrow> error + pyobject" where
  "py_times (Op A) (Op B) =
     (if derives_from B A then map_sum id Op (dunder_rmul B (Op A))
      else map_sum id Op (dunder_mul A (Op B)))"
| "py_times (Op A) (Number a) = map_sum id Op (dunder_mul A (Number a))"
| "py_times (Op A) Other = map_sum id Op (dunder_mul A Other)"
| "py_times (Number a) (Op A) = map_sum id Op (dunder_rmul A (Number a))"
| "py_times Other (Op A) = map_sum id Op (dunder_rmul A Other)"
| "py_times (Number a) (Number b) = Inr (Number (a * b))"
| "py_times _ _ = Inl (TypeError UnsupportedOperand)"

section \<open>The mathematical meaning of an operator expression\<close>

text \<open>
  What an expression computes as a function on contents, written after the docstrings
  of the expression classes (\<^verbatim>\<open>OperatorSum(op1,op2)(x) = op1(x) + op2(x)\<close> and so
  on). \<open>forward\<close> is the operator itself, \<open>backward\<close> its adjoint. The evaluation
  functions above are compared with these.
\<close>

fun forward :: "operator \<Rightarrow> vec \<Rightarrow> vec"
and backward :: "operator \<Rightarrow> vec \<Rightarrow> vec" where
  "forward (ConcreteOperator d r f) v = f v"
| "forward (ConcreteLinearOperator d r f g) v = f v"
| "forward (ConcreteSelfAdjointOperator d r f) v = f v"
| "forward (OperatorSum op1 op2) v = vadd (forward op1 v) (forward op2 v)"
| "forward (OperatorComposition left right) v = forward left (forward right v)"
| "forward (OperatorPointwiseProduct op1 op2) v = vmul (forward op1 v) (forward op2 v)"
| "forward (OperatorLeftScalarMultiplication op a) v = smult a (forward op v)"
| "forward (OperatorRightScalarMultiplication op a) v = forward op (smult a v)"
| "forward (OperatorAdjoint op) v = backward op v"
| "forward (LinearOperatorSum op1 op2) v = vadd (forward op1 v) (forward op2 v)"
| "forward (LinearOperatorComposition left right) v = forward left (forward right v)"
| "forward (LinearOperatorScalarMultiplication op a) v = smult a (forward op v)"
| "backward (ConcreteLinearOperator d r f g) v = g v"
| "backward (ConcreteSelfAdjointOperator d r f) v = f v"
| "backward (OperatorAdjoint op) v = forward op v"
| "backward (LinearOperatorSum op1 op2) v = vadd (backward op1 v) (backward op2 v)"
| "backward (LinearOperatorComposition left right) v = backward right (backward left v)"
| "backward (LinearOperatorScalarMultiplication op a) v = smult a (backward op v)"
| "backward (ConcreteOperator d r f) v = v"
| "backward (OperatorSum op1 op2) v = v"
| "backward (OperatorComposition left right) v = v"
| "backward (OperatorPointwiseProduct op1 op2) v = v"
| "backward (OperatorLeftScalarMultiplication op a) v = v"
| "backward (OperatorRightScalarMultiplication op a) v = v"

text \<open>
  The invariant the constructors establish: an expression every node of which passed the
  checks of its \<^verbatim>\<open>__init__\<close>.
\<close>

fun constructed :: "operator \<Rightarrow> bool" where
  "constructed (ConcreteOperator d r f) = True"
| "constructed (ConcreteLinearOperator d r f g) = True"
| "constructed (ConcreteSelfAdjointOperator d r f) = True"
| "constructed (OperatorSum op1 op2) =
     (constructed op1 \<and> constructed op2 \<and> range_op op1 = range_op op2 \<and> domain op1 = domain op2)"
| "constructed (OperatorComposition left right) =
     (constructed left \<and> constructed right \<and> range_op right = domain left)"
| "constructed (OperatorPointwiseProduct op1 op2) =
     (constructed op1 \<and> constructed op2 \<and> range_op op1 = range_op op2 \<and> domain op1 = domain op2)"
| "constructed (OperatorLeftScalarMultiplication op a) =
     (constructed op \<and> a \<in> field (range_op op))"
| "constructed (OperatorRightScalarMultiplication op a) =
     (constructed op \<and> a \<in> field (domain op))"
| "constructed (OperatorAdjoint op) = (constructed op \<and> isLinearOperator op)"
| "constructed (LinearOperatorSum op1 op2) =
     (constructed op1 \<and> constructed op2 \<and> isLinearOperator op1 \<and> isLinearOperator op2 \<and>
      range_op op1 = range_op op2 \<and> domain op1 = domain op2)"
| "constructed (LinearOperatorComposition left right) =
     (constructed left \<and> constructed right \<and> isLinearOperator left \<and> isLinearOperator right \<and>
      range_op right = domain left)"
| "constructed (LinearOperatorScalarMultiplication op a) =
     (constructed op \<and> isLinearOperator op \<and> a \<in> field (range_op op))"

text \<open>
  A buffer is in use in a state when its identity and its cell were handed out before.
  \<open>writes_only\<close> relates the states before and after an evaluation that wrote to the
  cell of \<open>out\<close> and to freshly allocated cells only.
\<close>

definition in_use :: "state \<Rightarrow> buffer \<Rightarrow> bool" where
  "in_use \<sigma> b = (ident b < nxt \<sigma> \<and> cell b < nxt \<sigma>)"

definition writes_only :: "state \<Rightarrow> buffer \<Rightarrow> state \<Rightarrow> bool" where
  "writes_only \<sigma> out \<sigma>' =
     (nxt \<sigma> \<le> nxt \<sigma>' \<and> (\<forall>c. c < nxt \<sigma> \<longrightarrow> c \<noteq> cell out \<longrightarrow> heap \<sigma>' c = heap \<sigma> c))"

text \<open>
  \<open>evaluates run f d r\<close>: on buffers in use that are distinct objects, \<open>rhs\<close> in \<open>d\<close>
  and \<open>out\<close> in \<open>r\<close>, the primitive \<open>run\<close> returns normally, writes to \<open>out\<close> and
  to fresh cells only, and, when \<open>rhs\<close> and \<open>out\<close> do not share their cell, leaves
  \<open>f\<close> of the contents of \<open>rhs\<close> in \<open>out\<close>.
\<close>

definition evaluates :: "(buffer \<Rightarrow> buffer \<Rightarrow> state \<Rightarrow> error + state) \<Rightarrow> (vec \<Rightarrow> vec) \<Rightarrow> space \<Rightarrow> space \<Rightarrow> bool" where
  "evaluates run f d r =
     (\<forall>rhs out \<sigma>. in_use \<sigma> rhs \<longrightarrow> in_use \<sigma> out \<longrightarrow> ident rhs \<noteq> ident out \<longrightarrow> isMember d rhs \<longrightarrow> isMember r out \<longrightarrow>
        (\<exists>\<sigma>'. run rhs out \<sigma> = Inr \<sigma>' \<and> writes_only \<sigma> out \<sigma>' \<and>
           (cell rhs \<noteq> cell out \<longrightarrow> heap \<sigma>' (cell out) = f (heap \<sigma> (cell rhs)))))"

text \<open>
  Homogeneity, the part of linearity that scalar multiplication needs. The source does not
  check that a subclass of \<^verbatim>\<open>LinearOperator\<close> is linear; \<open>homogeneous_leaves\<close> says
  that the concrete linear operators of an expression are.
\<close>

definition homogeneous :: "(vec \<Rightarrow> vec) \<Rightarrow> bool" where
  "homogeneous f = (\<forall>a v. f (smult a v) = smult a (f v))"

fun homogeneous_leaves :: "operator \<Rightarrow> bool" where
  "homogeneous_leaves (ConcreteOperator d r f) = True"
| "homogeneous_leaves (ConcreteLinearOperator d r f g) = (homogeneous f \<and> homogeneous g)"
| "homogeneous_leaves (ConcreteSelfAdjointOperator d r f) = homogeneous f"
| "homogeneous_leaves (OperatorSum op1 op2) = (homogeneous_leaves op1 \<and> homogeneous_leaves op2)"
| "homogeneous_leaves (OperatorComposition left right) =
     (homogeneous_leaves left \<and> homogeneous_leaves right)"
| "homogeneous_leaves (OperatorPointwiseProduct op1 op2) =
     (homogeneous_leaves op1 \<and> homogeneous_leaves op2)"
| "homogeneous_leaves (OperatorLeftScalarMultiplication op a) = homogeneous_leaves op"
| "homogeneous_leaves (OperatorRightScalarMultiplication op a) = homogeneous_leaves op"
| "homogeneous_leaves (OperatorAdjoint op) = homogeneous_leaves op"
| "homogeneous_leaves (LinearOperatorSum op1 op2) =
     (homogeneous_leaves op1 \<and> homogeneous_leaves op2)"
| "homogeneous_leaves (LinearOperatorComposition left right) =
     (homogeneous_leaves left \<and> homogeneous_leaves right)"
| "homogeneous_leaves (LinearOperatorScalarMultiplication op a) = homogeneous_leaves op"

section \<open>Example objects\<close>

text \<open>
  A space over all scalars, a squaring operator (not linear), a doubling operator (linear,
  its own adjoint), a tripling self-adjoint operator, and a store holding \<open>[1, 2, 3]\<close>
  in cells 0 and 2 and \<open>[1, 1, 1]\<close> in cell 1. \<open>twin0\<close> is a buffer of its own with
  the contents of \<open>buf0\<close>; \<open>view0\<close> is a second object on the storage of \<open>buf0\<close>;
  \<open>other2\<close> belongs to another space.
\<close>

definition R3 :: space where
  "R3 = \<lparr>name = 3, field = UNIV\<rparr>"

definition R2 :: space where
  "R2 = \<lparr>name = 2, field = UNIV\<rparr>"

definition squaring :: operator where
  "squaring = ConcreteOperator R3 R3 (map (\<lambda>v. v * v))"

definition doubling :: operator where
  "doubling = ConcreteLinearOperator R3 R3 (map ((*) 2)) (map ((*) 2))"

definition tripling :: operator where
  "tripling = ConcreteSelfAdjointOperator R3 R3 (map ((*) 3))"

definition buf0 :: buffer where
  "buf0 = \<lparr>ident = 0, cell = 0, memberOf = R3\<rparr>"

definition buf1 :: buffer where
  "buf1 = \<lparr>ident = 1, cell = 1, memberOf = R3\<rparr>"

definition twin0 :: buffer where
  "twin0 = \<lparr>ident = 2, cell = 2, memberOf = R3\<rparr>"

definition other2 :: buffer where
  "other2 = \<lparr>ident = 3, cell = 3, memberOf = R2\<rparr>"

definition view0 :: buffer where
  "view0 = \<lparr>ident = 4, cell = 0, memberOf = R3\<rparr>"

definition st0 :: state where
  "st0 = \<lparr>heap = (\<lambda>c. if c = 0 \<or> c = 2 then [1, 2, 3] else if c = 1 then [1, 1, 1] else []),
          nxt = 5\<rparr>"

section \<open>Evaluation computes the meaning of the expression\<close>

lemma evaluatesD:
  assumes "evaluates run f d r" "in_use \<sigma> rhs" "in_use \<sigma> out" "ident rhs \<noteq> ident out" "isMember d rhs" "isMember r out"
  obtains \<sigma>' where "run rhs out \<sigma> = Inr \<sigma>'" "writes_only \<sigma> out \<sigma>'"
    "cell rhs \<noteq> cell out \<Longrightarrow> heap \<sigma>' (cell out) = f (heap \<sigma> (cell rhs))"
  using assms unfolding evaluates_def by blast

lemma leaf_step: "evaluates (\<lambda>rhs out \<sigma>. Inr (write_buf out (f (heap \<sigma> (cell rhs))) \<sigma>)) f d r"
  by (simp add: evaluates_def writes_only_def write_buf_def)

lemma binary_step:
  assumes e1: "evaluates run1 f1 d r" and e2: "evaluates run2 f2 d r"
    and comb: "\<And>out tmp \<sigma>. heap (combine out tmp \<sigma>) = (heap \<sigma>)(cell out := h (heap \<sigma> (cell out)) (heap \<sigma> (cell tmp)))"
    and combn: "\<And>out tmp \<sigma>. nxt (combine out tmp \<sigma>) = nxt \<sigma>"
  shows "evaluates (\<lambda>rhs out \<sigma>.
     case empty_buf r \<sigma> of (tmp, \<sigma>0) \<Rightarrow>
      (case run1 rhs out \<sigma>0 of Inl e \<Rightarrow> Inl e | Inr \<sigma>1 \<Rightarrow>
      (case run2 rhs tmp \<sigma>1 of Inl e \<Rightarrow> Inl e | Inr \<sigma>2 \<Rightarrow>
      Inr (combine out tmp \<sigma>2)))) (\<lambda>v. h (f1 v) (f2 v)) d r"
  unfolding evaluates_def
proof (intro allI impI)
  fix rhs out \<sigma>
  assume u: "in_use \<sigma> rhs" "in_use \<sigma> out" and idn: "ident rhs \<noteq> ident out" and m: "isMember d rhs" "isMember r out"
  define tmp where "tmp = \<lparr>ident = nxt \<sigma>, cell = nxt \<sigma>, memberOf = r\<rparr>"
  define \<sigma>0 where "\<sigma>0 = \<sigma>\<lparr>nxt := Suc (nxt \<sigma>)\<rparr>"
  have eb: "empty_buf r \<sigma> = (tmp, \<sigma>0)" by (simp add: empty_buf_def tmp_def \<sigma>0_def)
  have u0: "in_use \<sigma>0 rhs" "in_use \<sigma>0 out" "in_use \<sigma>0 tmp"
    using u by (simp_all add: in_use_def \<sigma>0_def tmp_def)
  have mt: "isMember r tmp" by (simp add: isMember_def tmp_def)
  obtain \<sigma>1 where r1: "run1 rhs out \<sigma>0 = Inr \<sigma>1" and w1: "writes_only \<sigma>0 out \<sigma>1"
    and v1: "cell rhs \<noteq> cell out \<Longrightarrow> heap \<sigma>1 (cell out) = f1 (heap \<sigma>0 (cell rhs))"
    using evaluatesD[OF e1 u0(1) u0(2) idn m] by blast
  have u1: "in_use \<sigma>1 rhs" "in_use \<sigma>1 tmp"
    using u0 w1 by (auto simp: in_use_def writes_only_def)
  have idt: "ident rhs \<noteq> ident tmp" using u by (simp add: in_use_def tmp_def)
  obtain \<sigma>2 where r2: "run2 rhs tmp \<sigma>1 = Inr \<sigma>2" and w2: "writes_only \<sigma>1 tmp \<sigma>2"
    and v2: "cell rhs \<noteq> cell tmp \<Longrightarrow> heap \<sigma>2 (cell tmp) = f2 (heap \<sigma>1 (cell rhs))"
    using evaluatesD[OF e2 u1(1) u1(2) idt m(1) mt] by blast
  have ct: "cell tmp = nxt \<sigma>" by (simp add: tmp_def)
  have lt: "cell rhs < nxt \<sigma>" "cell out < nxt \<sigma>" using u by (simp_all add: in_use_def)
  have n0: "nxt \<sigma>0 = Suc (nxt \<sigma>)" "heap \<sigma>0 = heap \<sigma>" by (simp_all add: \<sigma>0_def)
  have run: "(case empty_buf r \<sigma> of (tmp, \<sigma>0) \<Rightarrow>
      (case run1 rhs out \<sigma>0 of Inl e \<Rightarrow> Inl e | Inr \<sigma>1 \<Rightarrow>
      (case run2 rhs tmp \<sigma>1 of Inl e \<Rightarrow> Inl e | Inr \<sigma>2 \<Rightarrow>
      Inr (combine out tmp \<sigma>2)))) = Inr (combine out tmp \<sigma>2)"
    by (simp add: eb r1 r2)
  have wo: "writes_only \<sigma> out (combine out tmp \<sigma>2)"
    using w1 w2 ct lt n0 by (auto simp: writes_only_def comb combn)
  have val: "heap (combine out tmp \<sigma>2) (cell out) = h (f1 (heap \<sigma> (cell rhs))) (f2 (heap \<sigma> (cell rhs)))"
    if ne: "cell rhs \<noteq> cell out"
  proof -
    have a: "heap \<sigma>2 (cell out) = heap \<sigma>1 (cell out)"
      using w1 w2 ct lt n0 by (auto simp: writes_only_def)
    have b: "heap \<sigma>1 (cell rhs) = heap \<sigma> (cell rhs)"
      using w1 ne lt n0 by (auto simp: writes_only_def)
    have c: "cell rhs \<noteq> cell tmp" using ct lt by simp
    show ?thesis using v1[OF ne] v2[OF c] a b n0 by (simp add: comb)
  qed
  show "\<exists>\<sigma>'. (case empty_buf r \<sigma> of (tmp, \<sigma>0) \<Rightarrow>
      (case run1 rhs out \<sigma>0 of Inl e \<Rightarrow> Inl e | Inr \<sigma>1 \<Rightarrow>
      (case run2 rhs tmp \<sigma>1 of Inl e \<Rightarrow> Inl e | Inr \<sigma>2 \<Rightarrow>
      Inr (combine out tmp \<sigma>2)))) = Inr \<sigma>' \<and> writes_only \<sigma> out \<sigma>' \<and>
      (cell rhs \<noteq> cell out \<longrightarrow> heap \<sigma>' (cell out) = h (f1 (heap \<sigma> (cell rhs))) (f2 (heap \<sigma> (cell rhs))))"
    using run wo val by blast
qed


lemma composition_step:
  assumes eR: "evaluates runR fR d m" and eL: "evaluates runL fL m r"
  shows "evaluates (\<lambda>rhs out \<sigma>.
     case empty_buf m \<sigma> of (tmp, \<sigma>0) \<Rightarrow>
      (case runR rhs tmp \<sigma>0 of Inl e \<Rightarrow> Inl e | Inr \<sigma>1 \<Rightarrow> runL tmp out \<sigma>1))
     (\<lambda>v. fL (fR v)) d r"
  unfolding evaluates_def
proof (intro allI impI)
  fix rhs out \<sigma>
  assume u: "in_use \<sigma> rhs" "in_use \<sigma> out" and idn: "ident rhs \<noteq> ident out"
    and m: "isMember d rhs" "isMember r out"
  define tmp where "tmp = \<lparr>ident = nxt \<sigma>, cell = nxt \<sigma>, memberOf = m\<rparr>"
  define \<sigma>0 where "\<sigma>0 = \<sigma>\<lparr>nxt := Suc (nxt \<sigma>)\<rparr>"
  have eb: "empty_buf m \<sigma> = (tmp, \<sigma>0)" by (simp add: empty_buf_def tmp_def \<sigma>0_def)
  have u0: "in_use \<sigma>0 rhs" "in_use \<sigma>0 out" "in_use \<sigma>0 tmp"
    using u by (simp_all add: in_use_def \<sigma>0_def tmp_def)
  have mt: "isMember m tmp" by (simp add: isMember_def tmp_def)
  have ct: "cell tmp = nxt \<sigma>" "ident tmp = nxt \<sigma>" by (simp_all add: tmp_def)
  have lt: "cell rhs < nxt \<sigma>" "cell out < nxt \<sigma>" "ident rhs < nxt \<sigma>" "ident out < nxt \<sigma>"
    using u by (simp_all add: in_use_def)
  have n0: "nxt \<sigma>0 = Suc (nxt \<sigma>)" "heap \<sigma>0 = heap \<sigma>" by (simp_all add: \<sigma>0_def)
  have idt: "ident rhs \<noteq> ident tmp" "ident tmp \<noteq> ident out" using ct lt by simp_all
  have cne: "cell rhs \<noteq> cell tmp" "cell tmp \<noteq> cell out" using ct lt by simp_all
  obtain \<sigma>1 where r1: "runR rhs tmp \<sigma>0 = Inr \<sigma>1" and w1: "writes_only \<sigma>0 tmp \<sigma>1"
    and v1: "heap \<sigma>1 (cell tmp) = fR (heap \<sigma>0 (cell rhs))"
    using evaluatesD[OF eR u0(1) u0(3) idt(1) m(1) mt] cne by blast
  have u1: "in_use \<sigma>1 tmp" "in_use \<sigma>1 out"
    using u0 w1 by (auto simp: in_use_def writes_only_def)
  obtain \<sigma>2 where r2: "runL tmp out \<sigma>1 = Inr \<sigma>2" and w2: "writes_only \<sigma>1 out \<sigma>2"
    and v2: "heap \<sigma>2 (cell out) = fL (heap \<sigma>1 (cell tmp))"
    using evaluatesD[OF eL u1(1) u1(2) idt(2) mt m(2)] cne by blast
  have run: "(case empty_buf m \<sigma> of (tmp, \<sigma>0) \<Rightarrow>
      (case runR rhs tmp \<sigma>0 of Inl e \<Rightarrow> Inl e | Inr \<sigma>1 \<Rightarrow> runL tmp out \<sigma>1)) = Inr \<sigma>2"
    by (simp add: eb r1 r2)
  have wo: "writes_only \<sigma> out \<sigma>2"
    using w1 w2 ct lt n0 by (auto simp: writes_only_def)
  have val: "heap \<sigma>2 (cell out) = fL (fR (heap \<sigma> (cell rhs)))"
    using v1 v2 n0 by simp
  show "\<exists>\<sigma>'. (case empty_buf m \<sigma> of (tmp, \<sigma>0) \<Rightarrow>
      (case runR rhs tmp \<sigma>0 of Inl e \<Rightarrow> Inl e | Inr \<sigma>1 \<Rightarrow> runL tmp out \<sigma>1)) = Inr \<sigma>' \<and>
      writes_only \<sigma> out \<sigma>' \<and>
      (cell rhs \<noteq> cell out \<longrightarrow> heap \<sigma>' (cell out) = fL (fR (heap \<sigma> (cell rhs))))"
    using run wo val by blast
qed

lemma left_scalar_step:
  assumes e: "evaluates run f d r"
  shows "evaluates (\<lambda>rhs out \<sigma>.
     case run rhs out \<sigma> of Inl e \<Rightarrow> Inl e | Inr \<sigma>1 \<Rightarrow> Inr (iscale out a \<sigma>1))
     (\<lambda>v. smult a (f v)) d r"
  unfolding evaluates_def
proof (intro allI impI)
  fix rhs out \<sigma>
  assume u: "in_use \<sigma> rhs" "in_use \<sigma> out" and idn: "ident rhs \<noteq> ident out"
    and m: "isMember d rhs" "isMember r out"
  obtain \<sigma>1 where r1: "run rhs out \<sigma> = Inr \<sigma>1" and w1: "writes_only \<sigma> out \<sigma>1"
    and v1: "cell rhs \<noteq> cell out \<Longrightarrow> heap \<sigma>1 (cell out) = f (heap \<sigma> (cell rhs))"
    using evaluatesD[OF e u idn m] by blast
  have wo: "writes_only \<sigma> out (iscale out a \<sigma>1)"
    using w1 by (auto simp: writes_only_def iscale_def)
  show "\<exists>\<sigma>'. (case run rhs out \<sigma> of Inl e \<Rightarrow> Inl e | Inr \<sigma>1 \<Rightarrow> Inr (iscale out a \<sigma>1)) = Inr \<sigma>' \<and>
      writes_only \<sigma> out \<sigma>' \<and>
      (cell rhs \<noteq> cell out \<longrightarrow> heap \<sigma>' (cell out) = smult a (f (heap \<sigma> (cell rhs))))"
    using r1 wo v1 by (auto simp: iscale_def)
qed

lemma right_scalar_step:
  assumes e: "evaluates run f d r"
  shows "evaluates (\<lambda>rhs out \<sigma>.
     case copy rhs \<sigma> of (tmp, \<sigma>0) \<Rightarrow> run tmp out (iscale tmp a \<sigma>0))
     (\<lambda>v. f (smult a v)) d r"
  unfolding evaluates_def
proof (intro allI impI)
  fix rhs out \<sigma>
  assume u: "in_use \<sigma> rhs" "in_use \<sigma> out" and idn: "ident rhs \<noteq> ident out"
    and m: "isMember d rhs" "isMember r out"
  define tmp where "tmp = \<lparr>ident = nxt \<sigma>, cell = nxt \<sigma>, memberOf = memberOf rhs\<rparr>"
  define \<sigma>0 where "\<sigma>0 = \<sigma>\<lparr>heap := (heap \<sigma>)(nxt \<sigma> := heap \<sigma> (cell rhs)), nxt := Suc (nxt \<sigma>)\<rparr>"
  define \<sigma>1 where "\<sigma>1 = iscale tmp a \<sigma>0"
  have cp: "copy rhs \<sigma> = (tmp, \<sigma>0)" by (simp add: copy_def tmp_def \<sigma>0_def)
  have ct: "cell tmp = nxt \<sigma>" "ident tmp = nxt \<sigma>" by (simp_all add: tmp_def)
  have lt: "cell rhs < nxt \<sigma>" "cell out < nxt \<sigma>" "ident rhs < nxt \<sigma>" "ident out < nxt \<sigma>"
    using u by (simp_all add: in_use_def)
  have n1: "nxt \<sigma>1 = Suc (nxt \<sigma>)"
    "heap \<sigma>1 = (heap \<sigma>)(nxt \<sigma> := smult a (heap \<sigma> (cell rhs)))"
    by (simp_all add: \<sigma>1_def \<sigma>0_def iscale_def ct)
  have u1: "in_use \<sigma>1 tmp" "in_use \<sigma>1 out"
    using lt by (simp_all add: in_use_def n1 ct)
  have mt: "isMember d tmp" using m by (simp add: isMember_def tmp_def)
  have idt: "ident tmp \<noteq> ident out" and cne: "cell tmp \<noteq> cell out" using ct lt by simp_all
  obtain \<sigma>2 where r2: "run tmp out \<sigma>1 = Inr \<sigma>2" and w2: "writes_only \<sigma>1 out \<sigma>2"
    and v2: "heap \<sigma>2 (cell out) = f (heap \<sigma>1 (cell tmp))"
    using evaluatesD[OF e u1 idt mt m(2)] cne by blast
  have wo: "writes_only \<sigma> out \<sigma>2"
    using w2 lt by (auto simp: writes_only_def n1)
  have val: "heap \<sigma>2 (cell out) = f (smult a (heap \<sigma> (cell rhs)))"
    using v2 by (simp add: n1 ct)
  show "\<exists>\<sigma>'. (case copy rhs \<sigma> of (tmp, \<sigma>0) \<Rightarrow> run tmp out (iscale tmp a \<sigma>0)) = Inr \<sigma>' \<and>
      writes_only \<sigma> out \<sigma>' \<and>
      (cell rhs \<noteq> cell out \<longrightarrow> heap \<sigma>' (cell out) = f (smult a (heap \<sigma> (cell rhs))))"
    using r2 wo val by (auto simp: cp \<sigma>1_def)
qed

lemma checked_adjoint_step:
  assumes "isLinearOperator op"
    and "evaluates (applyAdjointImpl op) f (range_op op) (domain op)"
  shows "evaluates (applyAdjoint op) f (range_op op) (domain op)"
  using assms unfolding evaluates_def by simp

lemma evaluates_eq:
  assumes "evaluates run' f' d r"
    and "\<And>rhs out \<sigma>. run rhs out \<sigma> = run' rhs out \<sigma>" and "\<And>v. f v = f' v"
  shows "evaluates run f d r"
  using assms unfolding evaluates_def by simp

lemma iadd_heap: "heap (iadd out tmp \<sigma>) = (heap \<sigma>)(cell out := vadd (heap \<sigma> (cell out)) (heap \<sigma> (cell tmp)))"
  and iadd_nxt: "nxt (iadd out tmp \<sigma>) = nxt \<sigma>"
  by (simp_all add: iadd_def)

lemma imul_heap: "heap (imul out tmp \<sigma>) = (heap \<sigma>)(cell out := vmul (heap \<sigma> (cell out)) (heap \<sigma> (cell tmp)))"
  and imul_nxt: "nxt (imul out tmp \<sigma>) = nxt \<sigma>"
  by (simp_all add: imul_def)

lemma impl_sound:
  "constructed op \<Longrightarrow>
     evaluates (applyImpl op) (forward op) (domain op) (range_op op) \<and>
     (isLinearOperator op \<longrightarrow>
        evaluates (applyAdjointImpl op) (backward op) (range_op op) (domain op))"
proof (induction op)
  case (ConcreteOperator d r f)
  have "evaluates (applyImpl (ConcreteOperator d r f)) (forward (ConcreteOperator d r f)) d r"
    by (rule evaluates_eq[OF leaf_step]) simp_all
  then show ?case by (simp only: domain.simps range_op.simps isLinearOperator.simps simp_thms)
next
  case (ConcreteLinearOperator d r f g)
  have "evaluates (applyImpl (ConcreteLinearOperator d r f g)) (forward (ConcreteLinearOperator d r f g)) d r"
    by (rule evaluates_eq[OF leaf_step]) simp_all
  moreover have "evaluates (applyAdjointImpl (ConcreteLinearOperator d r f g))
      (backward (ConcreteLinearOperator d r f g)) r d"
    by (rule evaluates_eq[OF leaf_step]) simp_all
  ultimately show ?case by (simp only: domain.simps range_op.simps isLinearOperator.simps simp_thms)
next
  case (ConcreteSelfAdjointOperator d r f)
  have "evaluates (applyImpl (ConcreteSelfAdjointOperator d r f)) (forward (ConcreteSelfAdjointOperator d r f)) d r"
    by (rule evaluates_eq[OF leaf_step]) simp_all
  moreover have "evaluates (applyAdjointImpl (ConcreteSelfAdjointOperator d r f))
      (backward (ConcreteSelfAdjointOperator d r f)) r d"
    by (rule evaluates_eq[OF leaf_step]) simp_all
  ultimately show ?case by (simp only: domain.simps range_op.simps isLinearOperator.simps simp_thms)
next
  case (OperatorSum op1 op2)
  then have e1: "evaluates (applyImpl op1) (forward op1) (domain op1) (range_op op1)"
    and e2: "evaluates (applyImpl op2) (forward op2) (domain op1) (range_op op1)"
    by simp_all
  have "evaluates (applyImpl (OperatorSum op1 op2)) (forward (OperatorSum op1 op2))
      (domain op1) (range_op op1)"
    by (rule evaluates_eq[OF binary_step[where combine=iadd and h=vadd, OF e1 e2 iadd_heap iadd_nxt]]) simp_all
  then show ?case by (simp only: domain.simps range_op.simps isLinearOperator.simps simp_thms)
next
  case (OperatorComposition left right)
  then have eR: "evaluates (applyImpl right) (forward right) (domain right) (range_op right)"
    and eL: "evaluates (applyImpl left) (forward left) (range_op right) (range_op left)"
    by simp_all
  have "evaluates (applyImpl (OperatorComposition left right))
      (forward (OperatorComposition left right)) (domain right) (range_op left)"
    by (rule evaluates_eq[OF composition_step[OF eR eL]]) simp_all
  then show ?case by (simp only: domain.simps range_op.simps isLinearOperator.simps simp_thms)
next
  case (OperatorPointwiseProduct op1 op2)
  then have e1: "evaluates (applyImpl op1) (forward op1) (domain op1) (range_op op1)"
    and e2: "evaluates (applyImpl op2) (forward op2) (domain op1) (range_op op1)"
    and eq: "range_op op2 = range_op op1"
    by simp_all
  have "evaluates (applyImpl (OperatorPointwiseProduct op1 op2))
      (forward (OperatorPointwiseProduct op1 op2)) (domain op1) (range_op op1)"
    by (rule evaluates_eq[OF binary_step[where combine=imul and h=vmul, OF e1 e2 imul_heap imul_nxt]]) (simp_all add: eq)
  then show ?case by (simp only: domain.simps range_op.simps isLinearOperator.simps simp_thms)
next
  case (OperatorLeftScalarMultiplication op a)
  then have e: "evaluates (applyImpl op) (forward op) (domain op) (range_op op)" by simp
  have "evaluates (applyImpl (OperatorLeftScalarMultiplication op a))
      (forward (OperatorLeftScalarMultiplication op a)) (domain op) (range_op op)"
    by (rule evaluates_eq[OF left_scalar_step[OF e, of a]]) simp_all
  then show ?case by (simp only: domain.simps range_op.simps isLinearOperator.simps simp_thms)
next
  case (OperatorRightScalarMultiplication op a)
  then have e: "evaluates (applyImpl op) (forward op) (domain op) (range_op op)" by simp
  have "evaluates (applyImpl (OperatorRightScalarMultiplication op a))
      (forward (OperatorRightScalarMultiplication op a)) (domain op) (range_op op)"
    by (rule evaluates_eq[OF right_scalar_step[OF e, of a]]) simp_all
  then show ?case by (simp only: domain.simps range_op.simps isLinearOperator.simps simp_thms)
next
  case (OperatorAdjoint op)
  then have e: "evaluates (applyImpl op) (forward op) (domain op) (range_op op)"
    and b: "evaluates (applyAdjointImpl op) (backward op) (range_op op) (domain op)"
    by simp_all
  have "evaluates (applyImpl (OperatorAdjoint op)) (forward (OperatorAdjoint op))
      (range_op op) (domain op)"
    by (rule evaluates_eq[OF b]) simp_all
  moreover have "evaluates (applyAdjointImpl (OperatorAdjoint op)) (backward (OperatorAdjoint op))
      (domain op) (range_op op)"
    by (rule evaluates_eq[OF e]) simp_all
  ultimately show ?case by (simp only: domain.simps range_op.simps isLinearOperator.simps simp_thms)
next
  case (LinearOperatorSum op1 op2)
  then have e1: "evaluates (applyImpl op1) (forward op1) (domain op1) (range_op op1)"
    and e2: "evaluates (applyImpl op2) (forward op2) (domain op1) (range_op op1)"
    and b1: "evaluates (applyAdjointImpl op1) (backward op1) (range_op op1) (domain op1)"
    and b2: "evaluates (applyAdjointImpl op2) (backward op2) (range_op op1) (domain op1)"
    by simp_all
  have "evaluates (applyImpl (LinearOperatorSum op1 op2)) (forward (LinearOperatorSum op1 op2))
      (domain op1) (range_op op1)"
    by (rule evaluates_eq[OF binary_step[where combine=iadd and h=vadd, OF e1 e2 iadd_heap iadd_nxt]]) simp_all
  moreover have "evaluates (applyAdjointImpl (LinearOperatorSum op1 op2))
      (backward (LinearOperatorSum op1 op2)) (range_op op1) (domain op1)"
    by (rule evaluates_eq[OF binary_step[where combine=iadd and h=vadd, OF b1 b2 iadd_heap iadd_nxt]]) simp_all
  ultimately show ?case by (simp only: domain.simps range_op.simps isLinearOperator.simps simp_thms)
next
  case (LinearOperatorComposition left right)
  then have eR: "evaluates (applyImpl right) (forward right) (domain right) (range_op right)"
    and eL: "evaluates (applyImpl left) (forward left) (range_op right) (range_op left)"
    and lin: "isLinearOperator left" "isLinearOperator right"
    and bL: "evaluates (applyAdjointImpl left) (backward left) (range_op left) (domain left)"
    and bR: "evaluates (applyAdjointImpl right) (backward right) (domain left) (domain right)"
    by simp_all
  have cL: "evaluates (applyAdjoint left) (backward left) (range_op left) (domain left)"
    by (rule checked_adjoint_step[OF lin(1) bL])
  have "evaluates (applyAdjoint right) (backward right) (range_op right) (domain right)"
    using LinearOperatorComposition.prems bR by (intro checked_adjoint_step[OF lin(2)]) simp
  then have cR: "evaluates (applyAdjoint right) (backward right) (domain left) (domain right)"
    using LinearOperatorComposition.prems by simp
  have "evaluates (applyImpl (LinearOperatorComposition left right))
      (forward (LinearOperatorComposition left right)) (domain right) (range_op left)"
    by (rule evaluates_eq[OF composition_step[OF eR eL]]) simp_all
  moreover have "evaluates (applyAdjointImpl (LinearOperatorComposition left right))
      (backward (LinearOperatorComposition left right)) (range_op left) (domain right)"
    by (rule evaluates_eq[OF composition_step[OF cL cR]]) (simp_all del: applyAdjoint.simps)
  ultimately show ?case by (simp only: domain.simps range_op.simps isLinearOperator.simps simp_thms)
next
  case (LinearOperatorScalarMultiplication op a)
  then have e: "evaluates (applyImpl op) (forward op) (domain op) (range_op op)"
    and b: "evaluates (applyAdjointImpl op) (backward op) (range_op op) (domain op)"
    by simp_all
  have "evaluates (applyImpl (LinearOperatorScalarMultiplication op a))
      (forward (LinearOperatorScalarMultiplication op a)) (domain op) (range_op op)"
    by (rule evaluates_eq[OF left_scalar_step[OF e, of a]]) simp_all
  moreover have "evaluates (applyAdjointImpl (LinearOperatorScalarMultiplication op a))
      (backward (LinearOperatorScalarMultiplication op a)) (range_op op) (domain op)"
    by (rule evaluates_eq[OF left_scalar_step[OF b, of a]]) simp_all
  ultimately show ?case by (simp only: domain.simps range_op.simps isLinearOperator.simps simp_thms)
qed

lemma apply_op_sound:
  assumes "constructed op" "in_use \<sigma> rhs" "in_use \<sigma> out"
    "isMember (domain op) rhs" "isMember (range_op op) out" "ident rhs \<noteq> ident out"
  obtains \<sigma>' where "apply_op op rhs out \<sigma> = Inr \<sigma>'" "applyImpl op rhs out \<sigma> = Inr \<sigma>'"
    "writes_only \<sigma> out \<sigma>'"
    "cell rhs \<noteq> cell out \<Longrightarrow> heap \<sigma>' (cell out) = forward op (heap \<sigma> (cell rhs))"
proof -
  have e: "evaluates (applyImpl op) (forward op) (domain op) (range_op op)"
    using impl_sound[OF assms(1)] by blast
  obtain \<sigma>' where r: "applyImpl op rhs out \<sigma> = Inr \<sigma>'" "writes_only \<sigma> out \<sigma>'"
    "cell rhs \<noteq> cell out \<Longrightarrow> heap \<sigma>' (cell out) = forward op (heap \<sigma> (cell rhs))"
    using evaluatesD[OF e assms(2,3,6,4,5)] by blast
  have "apply_op op rhs out \<sigma> = Inr \<sigma>'"
    using assms r(1) by (simp add: apply_op_def)
  then show ?thesis using r that by blast
qed

lemma applyAdjoint_sound:
  assumes "constructed op" "isLinearOperator op" "in_use \<sigma> rhs" "in_use \<sigma> out"
    "isMember (range_op op) rhs" "isMember (domain op) out" "ident rhs \<noteq> ident out"
  obtains \<sigma>' where "applyAdjoint op rhs out \<sigma> = Inr \<sigma>'" "applyAdjointImpl op rhs out \<sigma> = Inr \<sigma>'"
    "writes_only \<sigma> out \<sigma>'"
    "cell rhs \<noteq> cell out \<Longrightarrow> heap \<sigma>' (cell out) = backward op (heap \<sigma> (cell rhs))"
proof -
  have e: "evaluates (applyAdjointImpl op) (backward op) (range_op op) (domain op)"
    using impl_sound[OF assms(1)] assms(2) by blast
  obtain \<sigma>' where r: "applyAdjointImpl op rhs out \<sigma> = Inr \<sigma>'" "writes_only \<sigma> out \<sigma>'"
    "cell rhs \<noteq> cell out \<Longrightarrow> heap \<sigma>' (cell out) = backward op (heap \<sigma> (cell rhs))"
    using evaluatesD[OF e assms(3,4,7,5,6)] by blast
  have "applyAdjoint op rhs out \<sigma> = Inr \<sigma>'"
    using assms r(1) by simp
  then show ?thesis using r that by blast
qed

lemma call_sound:
  assumes "constructed op" "in_use \<sigma> rhs" "isMember (domain op) rhs"
  obtains r \<sigma>' where "call op rhs \<sigma> = Inr (r, \<sigma>')"
    "heap \<sigma>' (cell r) = forward op (heap \<sigma> (cell rhs))"
    "in_use \<sigma>' r" "isMember (range_op op) r" "in_use \<sigma>' rhs"
    "heap \<sigma>' (cell rhs) = heap \<sigma> (cell rhs)" "ident r \<noteq> ident rhs" "cell r \<noteq> cell rhs"
proof -
  define tmp where "tmp = \<lparr>ident = nxt \<sigma>, cell = nxt \<sigma>, memberOf = range_op op\<rparr>"
  define \<sigma>0 where "\<sigma>0 = \<sigma>\<lparr>nxt := Suc (nxt \<sigma>)\<rparr>"
  have eb: "empty_buf (range_op op) \<sigma> = (tmp, \<sigma>0)"
    by (simp add: empty_buf_def tmp_def \<sigma>0_def)
  have lt: "cell rhs < nxt \<sigma>" "ident rhs < nxt \<sigma>" using assms(2) by (simp_all add: in_use_def)
  have ct: "cell tmp = nxt \<sigma>" "ident tmp = nxt \<sigma>" by (simp_all add: tmp_def)
  have u0: "in_use \<sigma>0 rhs" "in_use \<sigma>0 tmp" using lt by (simp_all add: in_use_def \<sigma>0_def ct)
  have mt: "isMember (range_op op) tmp" by (simp add: isMember_def tmp_def)
  have ne: "ident rhs \<noteq> ident tmp" "cell rhs \<noteq> cell tmp" using lt ct by simp_all
  obtain \<sigma>' where r: "apply_op op rhs tmp \<sigma>0 = Inr \<sigma>'" "writes_only \<sigma>0 tmp \<sigma>'"
    "heap \<sigma>' (cell tmp) = forward op (heap \<sigma>0 (cell rhs))"
    using apply_op_sound[OF assms(1) u0 assms(3) mt ne(1)] ne(2) by blast
  have c: "call op rhs \<sigma> = Inr (tmp, \<sigma>')" by (simp add: call_def eb r(1))
  have h0: "heap \<sigma>0 = heap \<sigma>" "nxt \<sigma>0 = Suc (nxt \<sigma>)" by (simp_all add: \<sigma>0_def)
  have u': "in_use \<sigma>' tmp" "in_use \<sigma>' rhs"
    using u0 r(2) by (auto simp: in_use_def writes_only_def)
  have fr: "heap \<sigma>' (cell rhs) = heap \<sigma> (cell rhs)"
    using r(2) lt ne h0 by (auto simp: writes_only_def)
  show ?thesis
    using that[OF c _ u'(1) mt u'(2) fr] r(3) h0 ne by simp
qed

lemma example_facts [simp]:
  "constructed squaring" "constructed doubling" "constructed tripling"
  "domain squaring = R3" "range_op squaring = R3" "domain doubling = R3" "range_op doubling = R3"
  "domain tripling = R3" "range_op tripling = R3"
  "\<not> isLinearOperator squaring" "isLinearOperator doubling" "isLinearOperator tripling"
  "in_use st0 buf0" "in_use st0 buf1" "in_use st0 twin0" "in_use st0 view0" "in_use st0 other2"
  "isMember R3 buf0" "isMember R3 buf1" "isMember R3 twin0" "isMember R3 view0"
  "\<not> isMember R3 other2"
  "ident buf0 \<noteq> ident buf1" "ident buf0 \<noteq> ident view0" "ident buf1 \<noteq> ident buf0"
  "ident buf0 \<noteq> ident twin0"
  "cell view0 = cell buf0" "cell buf0 \<noteq> cell buf1" "cell buf1 \<noteq> cell buf0"
  "cell buf0 \<noteq> cell twin0" "heap st0 (cell twin0) = heap st0 (cell buf0)"
  by (simp_all add: squaring_def doubling_def tripling_def in_use_def st0_def buf0_def buf1_def
      twin0_def view0_def other2_def isMember_def R3_def R2_def)

section \<open>Scalar multiplication from the left and from the right\<close>

text \<open>
  Two operators cannot be multiplied. The method that raises is the reflected one of the
  right operand when its class derives from the left operand's class, and
  \<^verbatim>\<open>__mul__\<close> of the left operand otherwise.
\<close>

lemma py_times_between_operators:
  "py_times (Op (OperatorSum squaring squaring)) (Op (LinearOperatorSum doubling doubling)) =
     Inl (TypeError ExpectedOperatorOrScalar)"
  "py_times (Op squaring) (Op doubling) = Inl (TypeError ExpectedScalar)"
  "py_times (Op doubling) (Op squaring) = Inl (TypeError ExpectedOperatorOrScalar)"
  by (simp_all add: dunder_mul_def dunder_rmul_def Operator_mul_def LinearOperator_mul_def
      LinearOperator_rmul_def squaring_def doubling_def)

text \<open>
  Claim C1 says that \<^verbatim>\<open>a * A\<close> (scalar on the left) builds the left scalar
  multiplication, which scales the output, and \<^verbatim>\<open>A * a\<close> the right one, which scales
  the input. The docstrings of \<^verbatim>\<open>__mul__\<close> and \<^verbatim>\<open>__rmul__\<close> say the same, but
  Python calls \<^verbatim>\<open>__mul__\<close> for \<^verbatim>\<open>A * a\<close> and \<^verbatim>\<open>__rmul__\<close> for
  \<^verbatim>\<open>a * A\<close>: on the squaring operator \<^verbatim>\<open>2 * A\<close> builds
  \<open>OperatorRightScalarMultiplication\<close> and maps \<open>[1, 1, 1]\<close> to \<open>[4, 4, 4]\<close>, and
  \<^verbatim>\<open>A * 2\<close> builds \<open>OperatorLeftScalarMultiplication\<close> and gives \<open>[2, 2, 2]\<close>.
\<close>

theorem C1_scalar_on_the_left_builds_right_multiplication:
  "py_times (Number 2) (Op squaring) = Inr (Op (OperatorRightScalarMultiplication squaring 2)) \<and>
   py_times (Op squaring) (Number 2) = Inr (Op (OperatorLeftScalarMultiplication squaring 2)) \<and>
   (\<exists>r \<sigma>'. call (OperatorRightScalarMultiplication squaring 2) buf1 st0 = Inr (r, \<sigma>') \<and>
      heap \<sigma>' (cell r) = [4, 4, 4]) \<and>
   (\<exists>r \<sigma>'. call (OperatorLeftScalarMultiplication squaring 2) buf1 st0 = Inr (r, \<sigma>') \<and>
      heap \<sigma>' (cell r) = [2, 2, 2]) \<and>
   py_times Other (Op squaring) = Inl (TypeError ExpectedScalar) \<and>
   py_times (Op squaring) Other = Inl (TypeError ExpectedScalar)"
proof -
  have e: "py_times Other (Op squaring) = Inl (TypeError ExpectedScalar)"
    "py_times (Op squaring) Other = Inl (TypeError ExpectedScalar)"
    by (simp_all add: dunder_mul_def dunder_rmul_def Operator_mul_def Operator_rmul_def)
  have a: "py_times (Number 2) (Op squaring) = Inr (Op (OperatorRightScalarMultiplication squaring 2))"
    by (simp add: dunder_rmul_def Operator_rmul_def new_OperatorRightScalarMultiplication_def R3_def)
  have b: "py_times (Op squaring) (Number 2) = Inr (Op (OperatorLeftScalarMultiplication squaring 2))"
    by (simp add: dunder_mul_def Operator_mul_def new_OperatorLeftScalarMultiplication_def R3_def)
  have c: "\<exists>r \<sigma>'. call (OperatorRightScalarMultiplication squaring 2) buf1 st0 = Inr (r, \<sigma>') \<and>
      heap \<sigma>' (cell r) = [4, 4, 4]"
    by (simp add: call_def apply_op_def empty_buf_def copy_def iscale_def write_buf_def smult_def
        isMember_def buf1_def st0_def squaring_def)
  have d: "\<exists>r \<sigma>'. call (OperatorLeftScalarMultiplication squaring 2) buf1 st0 = Inr (r, \<sigma>') \<and>
      heap \<sigma>' (cell r) = [2, 2, 2]"
    by (simp add: call_def apply_op_def empty_buf_def copy_def iscale_def write_buf_def smult_def
        isMember_def buf1_def st0_def squaring_def)
  show ?thesis using a b c d e by blast
qed

section \<open>The checked entry point\<close>

text \<open>
  Claim C2, as stated, has \<^verbatim>\<open>apply\<close> fail when \<open>rhs\<close> and \<open>out\<close> are the same
  storage. The source compares identities (\<^verbatim>\<open>rhs is out\<close>): a second object on the
  storage of \<open>rhs\<close>, a member of the range, passes all three checks and reaches
  \<^verbatim>\<open>applyImpl\<close>.
\<close>

theorem C2_counterexample:
  "cell buf0 = cell view0 \<and> isMember (domain squaring) buf0 \<and>
   isMember (range_op squaring) view0 \<and>
   apply_op squaring buf0 view0 st0 \<noteq> Inl (ValueError AliasedArguments) \<and>
   apply_op squaring buf0 view0 st0 = applyImpl squaring buf0 view0 st0"
  by (simp add: apply_op_def) (simp add: buf0_def view0_def squaring_def)

text \<open>
  Claim C2, amended: for every constructed operator and buffers in use, \<^verbatim>\<open>apply\<close>
  fails with the \<^verbatim>\<open>TypeError\<close> for the domain when \<open>rhs\<close> is not in the domain;
  otherwise with the \<^verbatim>\<open>TypeError\<close> for the range when \<open>out\<close> is not in the range;
  otherwise with the \<^verbatim>\<open>ValueError\<close> for aliased arguments when \<open>rhs\<close> and
  \<open>out\<close> are the same object; otherwise it delegates to \<^verbatim>\<open>applyImpl\<close>, which
  returns normally, for every operator variant including composites.
\<close>

theorem C2_checked_apply:
  assumes "constructed op" "in_use \<sigma> rhs" "in_use \<sigma> out"
  shows "(\<not> isMember (domain op) rhs \<longrightarrow>
            apply_op op rhs out \<sigma> = Inl (TypeError RhsNotInDomain)) \<and>
         (isMember (domain op) rhs \<and> \<not> isMember (range_op op) out \<longrightarrow>
            apply_op op rhs out \<sigma> = Inl (TypeError OutNotInRange)) \<and>
         (isMember (domain op) rhs \<and> isMember (range_op op) out \<and> ident rhs = ident out \<longrightarrow>
            apply_op op rhs out \<sigma> = Inl (ValueError AliasedArguments)) \<and>
         (isMember (domain op) rhs \<and> isMember (range_op op) out \<and> ident rhs \<noteq> ident out \<longrightarrow>
            (\<exists>\<sigma>'. apply_op op rhs out \<sigma> = Inr \<sigma>' \<and> applyImpl op rhs out \<sigma> = Inr \<sigma>'))"
proof -
  have "\<exists>\<sigma>'. apply_op op rhs out \<sigma> = Inr \<sigma>' \<and> applyImpl op rhs out \<sigma> = Inr \<sigma>'"
    if "isMember (domain op) rhs" "isMember (range_op op) out" "ident rhs \<noteq> ident out"
    using apply_op_sound[OF assms that] by blast
  then show ?thesis by (simp add: apply_op_def)
qed

theorem C2_checked_apply_witness:
  "constructed (OperatorSum squaring doubling) \<and> in_use st0 buf0 \<and> in_use st0 buf1 \<and>
   in_use st0 other2 \<and>
   apply_op (OperatorSum squaring doubling) other2 buf1 st0 = Inl (TypeError RhsNotInDomain) \<and>
   apply_op (OperatorSum squaring doubling) buf0 other2 st0 = Inl (TypeError OutNotInRange) \<and>
   apply_op (OperatorSum squaring doubling) buf0 buf0 st0 = Inl (ValueError AliasedArguments) \<and>
   (\<exists>\<sigma>'. apply_op (OperatorSum squaring doubling) buf0 buf1 st0 = Inr \<sigma>' \<and>
      applyImpl (OperatorSum squaring doubling) buf0 buf1 st0 = Inr \<sigma>')"
proof -
  have c: "constructed (OperatorSum squaring doubling)" by simp
  show ?thesis
    using C2_checked_apply[OF c, of st0 other2 buf1] C2_checked_apply[OF c, of st0 buf0 other2]
      C2_checked_apply[OF c, of st0 buf0 buf0] C2_checked_apply[OF c, of st0 buf0 buf1]
    by (simp del: applyImpl.simps)
qed

section \<open>The input is left alone\<close>

text \<open>
  Claim C9, as stated, has every successful \<^verbatim>\<open>apply\<close> leave \<open>rhs\<close> unmodified.
  With \<open>out\<close> a distinct object on the storage of \<open>rhs\<close> the call succeeds and the
  squaring operator overwrites the contents of \<open>rhs\<close>: \<open>[1, 2, 3]\<close> becomes
  \<open>[1, 4, 9]\<close>.
\<close>

theorem C9_counterexample:
  "ident buf0 \<noteq> ident view0 \<and>
   apply_op squaring buf0 view0 st0 = Inr (write_buf view0 [1, 4, 9] st0) \<and>
   heap st0 (cell buf0) = [1, 2, 3] \<and>
   heap (write_buf view0 [1, 4, 9] st0) (cell buf0) = [1, 4, 9]"
  by (simp add: apply_op_def) (simp add: buf0_def view0_def squaring_def write_buf_def st0_def)

text \<open>
  Claim C9, amended: for every constructed operator and every successful call
  \<^verbatim>\<open>apply(rhs, out)\<close> in which \<open>rhs\<close> and \<open>out\<close> do not share storage, the
  contents of \<open>rhs\<close> are the same after the call; and the copy that
  \<^verbatim>\<open>OperatorRightScalarMultiplication\<close> makes and scales is a fresh buffer: scaling it
  leaves \<open>rhs\<close> as it was and leaves the scaled contents in the copy.
\<close>

theorem C9_input_unmodified:
  assumes "constructed op" "in_use \<sigma> rhs" "in_use \<sigma> out" "cell rhs \<noteq> cell out"
    and "apply_op op rhs out \<sigma> = Inr \<sigma>'"
  shows "heap \<sigma>' (cell rhs) = heap \<sigma> (cell rhs) \<and>
    (\<forall>a tmp \<sigma>0. copy rhs \<sigma> = (tmp, \<sigma>0) \<longrightarrow>
       heap (iscale tmp a \<sigma>0) (cell rhs) = heap \<sigma> (cell rhs) \<and>
       heap (iscale tmp a \<sigma>0) (cell tmp) = smult a (heap \<sigma> (cell rhs)))"
proof -
  have m: "isMember (domain op) rhs" "isMember (range_op op) out" "ident rhs \<noteq> ident out"
    using assms(5) by (auto simp: apply_op_def split: if_splits)
  obtain \<sigma>'' where "apply_op op rhs out \<sigma> = Inr \<sigma>''" "writes_only \<sigma> out \<sigma>''"
    using apply_op_sound[OF assms(1,2,3) m] by blast
  then have w: "writes_only \<sigma> out \<sigma>'" using assms(5) by simp
  have "cell rhs < nxt \<sigma>" using assms(2) by (simp add: in_use_def)
  then have a: "heap \<sigma>' (cell rhs) = heap \<sigma> (cell rhs)"
    using w assms(4) by (simp add: writes_only_def)
  have b: "heap (iscale tmp a \<sigma>0) (cell rhs) = heap \<sigma> (cell rhs) \<and>
       heap (iscale tmp a \<sigma>0) (cell tmp) = smult a (heap \<sigma> (cell rhs))"
    if "copy rhs \<sigma> = (tmp, \<sigma>0)" for a tmp \<sigma>0
    using that \<open>cell rhs < nxt \<sigma>\<close> by (auto simp: copy_def iscale_def)
  show ?thesis using a b by blast
qed

theorem C9_input_unmodified_witness:
  "constructed squaring \<and> in_use st0 buf0 \<and> in_use st0 buf1 \<and> cell buf0 \<noteq> cell buf1 \<and>
   (\<exists>\<sigma>'. apply_op squaring buf0 buf1 st0 = Inr \<sigma>' \<and>
      heap \<sigma>' (cell buf0) = heap st0 (cell buf0) \<and> heap \<sigma>' (cell buf1) = [1, 4, 9])"
proof -
  obtain \<sigma>' where a: "apply_op squaring buf0 buf1 st0 = Inr \<sigma>'"
    and b: "heap \<sigma>' (cell buf1) = [1, 4, 9]"
    by (simp add: apply_op_def) (simp add: squaring_def write_buf_def buf0_def buf1_def st0_def)
  have "heap \<sigma>' (cell buf0) = heap st0 (cell buf0)"
    using C9_input_unmodified[OF _ _ _ _ a] by simp
  then show ?thesis using a b by simp
qed

section \<open>Adjoints\<close>

text \<open>
  Claim C5: for every linear operator \<open>A\<close>, taking the adjoint twice succeeds and gives an
  operator with the domain and range of \<open>A\<close> whose checked forward evaluation and checked
  adjoint evaluation are those of \<open>A\<close>, on every input, output and store (errors
  included).
\<close>

theorem C5_double_adjoint:
  assumes "isLinearOperator A"
  shows "\<exists>A1 AA. T A = Inr A1 \<and> T A1 = Inr AA \<and>
           domain AA = domain A \<and> range_op AA = range_op A \<and>
           (\<forall>x out \<sigma>. apply_op AA x out \<sigma> = apply_op A x out \<sigma>) \<and>
           (\<forall>x out \<sigma>. applyAdjoint AA x out \<sigma> = applyAdjoint A x out \<sigma>)"
  using assms by (simp add: T_def new_OperatorAdjoint_def apply_op_def)

theorem C5_double_adjoint_witness:
  "isLinearOperator doubling \<and>
   (\<exists>A1 AA. T doubling = Inr A1 \<and> T A1 = Inr AA \<and>
      domain AA = domain doubling \<and> range_op AA = range_op doubling \<and>
      (\<forall>x out \<sigma>. apply_op AA x out \<sigma> = apply_op doubling x out \<sigma>) \<and>
      (\<forall>x out \<sigma>. applyAdjoint AA x out \<sigma> = applyAdjoint doubling x out \<sigma>))"
  using C5_double_adjoint[of doubling] by simp

text \<open>
  Claim C8: a self-adjoint operator's adjoint primitive is its forward primitive, on every
  input, output and store; and for every input and output that both entry points accept as
  members, \<^verbatim>\<open>applyAdjoint\<close> does what \<^verbatim>\<open>apply\<close> does.
\<close>

theorem C8_self_adjoint:
  fixes S :: operator
  assumes "S = ConcreteSelfAdjointOperator d r f"
  shows "applyAdjointImpl S x out \<sigma> = applyImpl S x out \<sigma> \<and>
     (isMember (domain S) x \<and> isMember (range_op S) out \<and>
      isMember (range_op S) x \<and> isMember (domain S) out \<longrightarrow>
        applyAdjoint S x out \<sigma> = apply_op S x out \<sigma>)"
  using assms by (simp add: apply_op_def)

theorem C8_self_adjoint_witness:
  "tripling = ConcreteSelfAdjointOperator R3 R3 (map ((*) 3)) \<and>
   isMember (domain tripling) buf0 \<and> isMember (range_op tripling) buf1 \<and>
   isMember (range_op tripling) buf0 \<and> isMember (domain tripling) buf1 \<and>
   applyAdjointImpl tripling buf0 buf1 st0 = applyImpl tripling buf0 buf1 st0 \<and>
   applyAdjoint tripling buf0 buf1 st0 = apply_op tripling buf0 buf1 st0 \<and>
   (\<exists>\<sigma>'. apply_op tripling buf0 buf1 st0 = Inr \<sigma>' \<and> heap \<sigma>' 1 = [3, 6, 9])"
  using C8_self_adjoint[of tripling R3 R3 "map ((*) 3)" buf0 buf1 st0]
  by (simp add: tripling_def apply_op_def isMember_def buf0_def buf1_def write_buf_def st0_def)

section \<open>What the aliasing check compares\<close>

text \<open>
  Claim C10: the aliasing rejection of \<^verbatim>\<open>apply\<close> and \<^verbatim>\<open>applyAdjoint\<close> tests the
  identity of the two objects only. With both membership checks passed, the call is
  rejected when \<open>rhs\<close> and \<open>out\<close> are the same object and accepted (it returns
  normally) for every two distinct objects, whatever their contents and whether or not
  they share storage.
\<close>

theorem C10_identity_only:
  assumes "constructed op" "in_use \<sigma> rhs" "in_use \<sigma> out"
  shows "(isMember (domain op) rhs \<and> isMember (range_op op) out \<longrightarrow>
            (ident rhs = ident out \<longrightarrow>
               apply_op op rhs out \<sigma> = Inl (ValueError AliasedArguments)) \<and>
            (ident rhs \<noteq> ident out \<longrightarrow> (\<exists>\<sigma>'. apply_op op rhs out \<sigma> = Inr \<sigma>'))) \<and>
         (isLinearOperator op \<and> isMember (range_op op) rhs \<and> isMember (domain op) out \<longrightarrow>
            (ident rhs = ident out \<longrightarrow>
               applyAdjoint op rhs out \<sigma> = Inl (ValueError AliasedArguments)) \<and>
            (ident rhs \<noteq> ident out \<longrightarrow> (\<exists>\<sigma>'. applyAdjoint op rhs out \<sigma> = Inr \<sigma>')))"
proof -
  have a: "\<exists>\<sigma>'. apply_op op rhs out \<sigma> = Inr \<sigma>'"
    if "isMember (domain op) rhs" "isMember (range_op op) out" "ident rhs \<noteq> ident out"
    using apply_op_sound[OF assms that] by blast
  have b: "\<exists>\<sigma>'. applyAdjoint op rhs out \<sigma> = Inr \<sigma>'"
    if "isLinearOperator op" "isMember (range_op op) rhs" "isMember (domain op) out"
      "ident rhs \<noteq> ident out"
    using applyAdjoint_sound[OF assms(1) that(1) assms(2,3) that(2,3,4)] by blast
  have c: "apply_op op rhs out \<sigma> = Inl (ValueError AliasedArguments)"
    if "isMember (domain op) rhs" "isMember (range_op op) out" "ident rhs = ident out"
    using that by (simp add: apply_op_def)
  have d: "applyAdjoint op rhs out \<sigma> = Inl (ValueError AliasedArguments)"
    if "isLinearOperator op" "isMember (range_op op) rhs" "isMember (domain op) out"
      "ident rhs = ident out"
    using that by simp
  show ?thesis using a b c d by blast
qed

theorem C10_identity_only_witness:
  "constructed doubling \<and> in_use st0 buf0 \<and> in_use st0 view0 \<and> in_use st0 twin0 \<and>
   cell view0 = cell buf0 \<and> ident buf0 \<noteq> ident view0 \<and>
   heap st0 (cell twin0) = heap st0 (cell buf0) \<and> ident buf0 \<noteq> ident twin0 \<and>
   (\<exists>\<sigma>'. apply_op doubling buf0 view0 st0 = Inr \<sigma>') \<and>
   (\<exists>\<sigma>'. applyAdjoint doubling buf0 view0 st0 = Inr \<sigma>') \<and>
   (\<exists>\<sigma>'. apply_op doubling buf0 twin0 st0 = Inr \<sigma>') \<and>
   (\<exists>\<sigma>'. applyAdjoint doubling buf0 twin0 st0 = Inr \<sigma>') \<and>
   apply_op doubling buf0 buf0 st0 = Inl (ValueError AliasedArguments) \<and>
   applyAdjoint doubling buf0 buf0 st0 = Inl (ValueError AliasedArguments)"
proof -
  have c: "constructed doubling" by simp
  show ?thesis
    using C10_identity_only[OF c, of st0 buf0 view0] C10_identity_only[OF c, of st0 buf0 twin0]
      C10_identity_only[OF c, of st0 buf0 buf0]
    by (simp del: applyAdjoint.simps)
qed

section \<open>Sum and composition\<close>

lemma applyImpl_sum_steps:
  assumes "applyImpl (OperatorSum A B) x out \<sigma> = Inr \<sigma>'"
  shows "\<exists>tmp \<sigma>0 \<sigma>1 \<sigma>2. empty_buf (range_op (OperatorSum A B)) \<sigma> = (tmp, \<sigma>0) \<and>
     applyImpl A x out \<sigma>0 = Inr \<sigma>1 \<and> applyImpl B x tmp \<sigma>1 = Inr \<sigma>2 \<and>
     \<sigma>' = iadd out tmp \<sigma>2"
  using assms by (auto split: prod.splits sum.splits)

lemma applyImpl_composition_steps:
  assumes "applyImpl (OperatorComposition A B) x out \<sigma> = Inr \<sigma>'"
  shows "\<exists>tmp \<sigma>0 \<sigma>1. empty_buf (range_op B) \<sigma> = (tmp, \<sigma>0) \<and>
     applyImpl B x tmp \<sigma>0 = Inr \<sigma>1 \<and> applyImpl A tmp out \<sigma>1 = Inr \<sigma>'"
  using assms by (auto split: prod.splits sum.splits)

text \<open>
  Claim C3: for all constructed operators \<open>A\<close> and \<open>B\<close> with equal domains and equal
  ranges and every \<open>x\<close> in the shared domain, \<open>OperatorSum(A, B)\<close> can be built, and
  calling it on \<open>x\<close> returns a buffer holding the element-wise sum of what calling \<open>A\<close>
  and calling \<open>B\<close> on \<open>x\<close> return. Its evaluation into an output buffer allocates a
  temporary from the range, evaluates \<open>A\<close> into \<open>out\<close>, evaluates \<open>B\<close> into the
  temporary and adds the temporary to \<open>out\<close> in place.
\<close>

theorem C3_sum:
  assumes "constructed A" "constructed B" "domain A = domain B" "range_op A = range_op B"
    and "in_use \<sigma> x" "isMember (domain A) x"
  shows "\<exists>S r \<sigma>' ra \<sigma>a rb \<sigma>b. new_OperatorSum A B = Inr S \<and>
      call S x \<sigma> = Inr (r, \<sigma>') \<and> call A x \<sigma> = Inr (ra, \<sigma>a) \<and> call B x \<sigma> = Inr (rb, \<sigma>b) \<and>
      heap \<sigma>' (cell r) = vadd (heap \<sigma>a (cell ra)) (heap \<sigma>b (cell rb)) \<and>
      (\<forall>out. in_use \<sigma> out \<and> isMember (range_op S) out \<and> ident x \<noteq> ident out \<longrightarrow>
         (\<exists>tmp \<sigma>0 \<sigma>1 \<sigma>2. empty_buf (range_op S) \<sigma> = (tmp, \<sigma>0) \<and>
            applyImpl A x out \<sigma>0 = Inr \<sigma>1 \<and> applyImpl B x tmp \<sigma>1 = Inr \<sigma>2 \<and>
            apply_op S x out \<sigma> = Inr (iadd out tmp \<sigma>2)))"
proof -
  let ?S = "OperatorSum A B"
  have n: "new_OperatorSum A B = Inr ?S" using assms(3,4) by (simp add: new_OperatorSum_def)
  have cS: "constructed ?S" using assms(1-4) by simp
  have mS: "isMember (domain ?S) x" using assms(6) by simp
  have mB: "isMember (domain B) x" using assms(3,6) by simp
  obtain r \<sigma>' where s: "call ?S x \<sigma> = Inr (r, \<sigma>')"
    "heap \<sigma>' (cell r) = forward ?S (heap \<sigma> (cell x))"
    using call_sound[OF cS assms(5) mS] by blast
  obtain ra \<sigma>a where a: "call A x \<sigma> = Inr (ra, \<sigma>a)"
    "heap \<sigma>a (cell ra) = forward A (heap \<sigma> (cell x))"
    using call_sound[OF assms(1,5,6)] by blast
  obtain rb \<sigma>b where b: "call B x \<sigma> = Inr (rb, \<sigma>b)"
    "heap \<sigma>b (cell rb) = forward B (heap \<sigma> (cell x))"
    using call_sound[OF assms(2,5) mB] by blast
  have v: "heap \<sigma>' (cell r) = vadd (heap \<sigma>a (cell ra)) (heap \<sigma>b (cell rb))"
    using s(2) a(2) b(2) by simp
  have o: "\<exists>tmp \<sigma>0 \<sigma>1 \<sigma>2. empty_buf (range_op ?S) \<sigma> = (tmp, \<sigma>0) \<and>
            applyImpl A x out \<sigma>0 = Inr \<sigma>1 \<and> applyImpl B x tmp \<sigma>1 = Inr \<sigma>2 \<and>
            apply_op ?S x out \<sigma> = Inr (iadd out tmp \<sigma>2)"
    if h: "in_use \<sigma> out" "isMember (range_op ?S) out" "ident x \<noteq> ident out" for out
  proof -
    obtain \<sigma>'' where p: "apply_op ?S x out \<sigma> = Inr \<sigma>''" "applyImpl ?S x out \<sigma> = Inr \<sigma>''"
      using apply_op_sound[OF cS assms(5) h(1) mS h(2,3)] by blast
    show ?thesis using applyImpl_sum_steps[OF p(2)] p(1) by blast
  qed
  show ?thesis using n s(1) a(1) b(1) v o by blast
qed

theorem C3_sum_witness:
  "constructed doubling \<and> constructed tripling \<and> domain doubling = domain tripling \<and>
   range_op doubling = range_op tripling \<and> in_use st0 buf0 \<and> isMember (domain doubling) buf0 \<and>
   (\<exists>S r \<sigma>' ra \<sigma>a rb \<sigma>b. new_OperatorSum doubling tripling = Inr S \<and>
      call S buf0 st0 = Inr (r, \<sigma>') \<and> call doubling buf0 st0 = Inr (ra, \<sigma>a) \<and>
      call tripling buf0 st0 = Inr (rb, \<sigma>b) \<and>
      heap \<sigma>' (cell r) = vadd (heap \<sigma>a (cell ra)) (heap \<sigma>b (cell rb)))"
proof -
  have h: "constructed doubling" "constructed tripling" "domain doubling = domain tripling"
    "range_op doubling = range_op tripling" "in_use st0 buf0" "isMember (domain doubling) buf0"
    by simp_all
  show ?thesis using C3_sum[OF h] h by blast
qed

text \<open>
  Claim C4: for all constructed operators \<open>A\<close> (left) and \<open>B\<close> (right) with the range of
  \<open>B\<close> equal to the domain of \<open>A\<close> and every \<open>x\<close> in the domain of \<open>B\<close>,
  \<open>OperatorComposition(A, B)\<close> can be built, has the domain of \<open>B\<close> and the range of
  \<open>A\<close>, and calling it on \<open>x\<close> returns a buffer holding what calling \<open>A\<close> on the
  result of calling \<open>B\<close> on \<open>x\<close> returns. Its evaluation into an output buffer
  allocates a temporary from the range of \<open>B\<close>, evaluates \<open>B\<close> into it and then
  evaluates \<open>A\<close> on the temporary into \<open>out\<close>.
\<close>

theorem C4_composition:
  assumes "constructed A" "constructed B" "range_op B = domain A"
    and "in_use \<sigma> x" "isMember (domain B) x"
  shows "\<exists>C t \<sigma>1 r \<sigma>2 r' \<sigma>'. new_OperatorComposition A B = Inr C \<and>
      domain C = domain B \<and> range_op C = range_op A \<and>
      call B x \<sigma> = Inr (t, \<sigma>1) \<and> call A t \<sigma>1 = Inr (r, \<sigma>2) \<and>
      call C x \<sigma> = Inr (r', \<sigma>') \<and> heap \<sigma>' (cell r') = heap \<sigma>2 (cell r) \<and>
      (\<forall>out. in_use \<sigma> out \<and> isMember (range_op C) out \<and> ident x \<noteq> ident out \<longrightarrow>
         (\<exists>tmp \<sigma>0 \<sigma>3 \<sigma>4. empty_buf (range_op B) \<sigma> = (tmp, \<sigma>0) \<and>
            applyImpl B x tmp \<sigma>0 = Inr \<sigma>3 \<and> applyImpl A tmp out \<sigma>3 = Inr \<sigma>4 \<and>
            apply_op C x out \<sigma> = Inr \<sigma>4))"
proof -
  let ?C = "OperatorComposition A B"
  have n: "new_OperatorComposition A B = Inr ?C" using assms(3) by (simp add: new_OperatorComposition_def)
  have cC: "constructed ?C" using assms(1-3) by simp
  have mC: "isMember (domain ?C) x" using assms(5) by simp
  obtain t \<sigma>1 where b: "call B x \<sigma> = Inr (t, \<sigma>1)"
    "heap \<sigma>1 (cell t) = forward B (heap \<sigma> (cell x))" "in_use \<sigma>1 t" "isMember (range_op B) t"
    using call_sound[OF assms(2,4,5)] by blast
  have mt: "isMember (domain A) t" using b(4) assms(3) by simp
  obtain r \<sigma>2 where a: "call A t \<sigma>1 = Inr (r, \<sigma>2)"
    "heap \<sigma>2 (cell r) = forward A (heap \<sigma>1 (cell t))"
    using call_sound[OF assms(1) b(3) mt] by blast
  obtain r' \<sigma>' where c: "call ?C x \<sigma> = Inr (r', \<sigma>')"
    "heap \<sigma>' (cell r') = forward ?C (heap \<sigma> (cell x))"
    using call_sound[OF cC assms(4) mC] by blast
  have v: "heap \<sigma>' (cell r') = heap \<sigma>2 (cell r)" using a(2) b(2) c(2) by simp
  have o: "\<exists>tmp \<sigma>0 \<sigma>3 \<sigma>4. empty_buf (range_op B) \<sigma> = (tmp, \<sigma>0) \<and>
            applyImpl B x tmp \<sigma>0 = Inr \<sigma>3 \<and> applyImpl A tmp out \<sigma>3 = Inr \<sigma>4 \<and>
            apply_op ?C x out \<sigma> = Inr \<sigma>4"
    if h: "in_use \<sigma> out" "isMember (range_op ?C) out" "ident x \<noteq> ident out" for out
  proof -
    obtain \<sigma>'' where p: "apply_op ?C x out \<sigma> = Inr \<sigma>''" "applyImpl ?C x out \<sigma> = Inr \<sigma>''"
      using apply_op_sound[OF cC assms(4) h(1) mC h(2,3)] by blast
    show ?thesis using applyImpl_composition_steps[OF p(2)] p(1) by blast
  qed
  have d: "domain ?C = domain B" "range_op ?C = range_op A" by simp_all
  show ?thesis using n d b(1) a(1) c(1) v o by blast
qed

theorem C4_composition_witness:
  "constructed squaring \<and> constructed doubling \<and> range_op doubling = domain squaring \<and>
   in_use st0 buf0 \<and> isMember (domain doubling) buf0 \<and>
   (\<exists>C t \<sigma>1 r \<sigma>2 r' \<sigma>'. new_OperatorComposition squaring doubling = Inr C \<and>
      domain C = domain doubling \<and> range_op C = range_op squaring \<and>
      call doubling buf0 st0 = Inr (t, \<sigma>1) \<and> call squaring t \<sigma>1 = Inr (r, \<sigma>2) \<and>
      call C buf0 st0 = Inr (r', \<sigma>') \<and> heap \<sigma>' (cell r') = heap \<sigma>2 (cell r))"
proof -
  have h: "constructed squaring" "constructed doubling" "range_op doubling = domain squaring"
    "in_use st0 buf0" "isMember (domain doubling) buf0"
    by simp_all
  show ?thesis using C4_composition[OF h] h by blast
qed

section \<open>The adjoint of a composition\<close>

text \<open>
  Claim C6: for all constructed linear operators \<open>L\<close> and \<open>R\<close> with the range of \<open>R\<close>
  equal to the domain of \<open>L\<close>, \<open>LinearOperatorComposition(L, R)\<close> can be built, and its
  \<^verbatim>\<open>applyAdjoint(y, out)\<close> allocates a temporary from the domain of \<open>L\<close>, evaluates
  the adjoint of \<open>L\<close> on \<open>y\<close> into it, then the adjoint of \<open>R\<close> on the temporary into
  \<open>out\<close>; what it leaves in \<open>out\<close> is what calling the adjoint of \<open>R\<close> on the result
  of calling the adjoint of \<open>L\<close> on \<open>y\<close> returns.
\<close>

theorem C6_adjoint_of_composition:
  assumes "constructed L" "constructed R" "isLinearOperator L" "isLinearOperator R"
    and "range_op R = domain L"
    and "in_use \<sigma> y" "in_use \<sigma> out" "isMember (range_op L) y" "isMember (domain R) out"
    and "ident y \<noteq> ident out"
  shows "\<exists>LC tmp \<sigma>0 \<sigma>1 \<sigma>' LT RT t \<sigma>a r \<sigma>b.
      new_LinearOperatorComposition L R = Inr LC \<and>
      empty_buf (domain L) \<sigma> = (tmp, \<sigma>0) \<and> applyAdjoint L y tmp \<sigma>0 = Inr \<sigma>1 \<and>
      applyAdjoint R tmp out \<sigma>1 = Inr \<sigma>' \<and> applyAdjoint LC y out \<sigma> = Inr \<sigma>' \<and>
      T L = Inr LT \<and> T R = Inr RT \<and> call LT y \<sigma> = Inr (t, \<sigma>a) \<and> call RT t \<sigma>a = Inr (r, \<sigma>b) \<and>
      heap \<sigma>' (cell out) = heap \<sigma>b (cell r)"
proof -
  let ?LC = "LinearOperatorComposition L R"
  have n: "new_LinearOperatorComposition L R = Inr ?LC"
    using assms(3,4,5) by (simp add: new_LinearOperatorComposition_def)
  define tmp where "tmp = \<lparr>ident = nxt \<sigma>, cell = nxt \<sigma>, memberOf = domain L\<rparr>"
  define \<sigma>0 where "\<sigma>0 = \<sigma>\<lparr>nxt := Suc (nxt \<sigma>)\<rparr>"
  have eb: "empty_buf (domain L) \<sigma> = (tmp, \<sigma>0)" by (simp add: empty_buf_def tmp_def \<sigma>0_def)
  have lt: "cell y < nxt \<sigma>" "ident y < nxt \<sigma>" "cell out < nxt \<sigma>" "ident out < nxt \<sigma>"
    using assms(6,7) by (simp_all add: in_use_def)
  have ct: "cell tmp = nxt \<sigma>" "ident tmp = nxt \<sigma>" by (simp_all add: tmp_def)
  have h0: "heap \<sigma>0 = heap \<sigma>" "nxt \<sigma>0 = Suc (nxt \<sigma>)" by (simp_all add: \<sigma>0_def)
  have u0: "in_use \<sigma>0 y" "in_use \<sigma>0 tmp" "in_use \<sigma>0 out"
    using lt by (simp_all add: in_use_def h0 ct)
  have mt: "isMember (domain L) tmp" by (simp add: isMember_def tmp_def)
  have ne: "ident y \<noteq> ident tmp" "cell y \<noteq> cell tmp" "ident tmp \<noteq> ident out" "cell tmp \<noteq> cell out"
    using lt ct by simp_all
  obtain \<sigma>1 where s1: "applyAdjoint L y tmp \<sigma>0 = Inr \<sigma>1" "writes_only \<sigma>0 tmp \<sigma>1"
    "heap \<sigma>1 (cell tmp) = backward L (heap \<sigma>0 (cell y))"
    using applyAdjoint_sound[OF assms(1,3) u0(1,2) assms(8) mt ne(1)] ne(2) by blast
  have u1: "in_use \<sigma>1 tmp" "in_use \<sigma>1 out"
    using u0 s1(2) by (auto simp: in_use_def writes_only_def)
  have mt': "isMember (range_op R) tmp" using mt assms(5) by simp
  obtain \<sigma>' where s2: "applyAdjoint R tmp out \<sigma>1 = Inr \<sigma>'"
    "heap \<sigma>' (cell out) = backward R (heap \<sigma>1 (cell tmp))"
    using applyAdjoint_sound[OF assms(2,4) u1 mt' assms(9) ne(3)] ne(4) by blast
  have lc: "applyAdjoint ?LC y out \<sigma> = Inr \<sigma>'"
    using assms(8,9,10) eb s1(1) s2(1) by (simp del: applyAdjoint.simps add: applyAdjoint.simps[of ?LC])
  have tl: "T L = Inr (OperatorAdjoint L)" "T R = Inr (OperatorAdjoint R)"
    using assms(3,4) by (simp_all add: T_def new_OperatorAdjoint_def)
  have cT: "constructed (OperatorAdjoint L)" "constructed (OperatorAdjoint R)"
    using assms(1-4) by simp_all
  have my: "isMember (domain (OperatorAdjoint L)) y" using assms(8) by simp
  obtain t \<sigma>a where a: "call (OperatorAdjoint L) y \<sigma> = Inr (t, \<sigma>a)"
    "heap \<sigma>a (cell t) = forward (OperatorAdjoint L) (heap \<sigma> (cell y))"
    "in_use \<sigma>a t" "isMember (range_op (OperatorAdjoint L)) t"
    using call_sound[OF cT(1) assms(6) my] by blast
  have mt2: "isMember (domain (OperatorAdjoint R)) t" using a(4) assms(5) by simp
  obtain r \<sigma>b where b: "call (OperatorAdjoint R) t \<sigma>a = Inr (r, \<sigma>b)"
    "heap \<sigma>b (cell r) = forward (OperatorAdjoint R) (heap \<sigma>a (cell t))"
    using call_sound[OF cT(2) a(3) mt2] by blast
  have v: "heap \<sigma>' (cell out) = heap \<sigma>b (cell r)"
    using s1(3) s2(2) a(2) b(2) h0 by simp
  show ?thesis using n eb s1(1) s2(1) lc tl a(1) b(1) v by blast
qed

theorem C6_adjoint_of_composition_witness:
  "constructed tripling \<and> constructed doubling \<and> isLinearOperator tripling \<and>
   isLinearOperator doubling \<and> range_op doubling = domain tripling \<and>
   in_use st0 buf0 \<and> in_use st0 buf1 \<and> isMember (range_op tripling) buf0 \<and>
   isMember (domain doubling) buf1 \<and> ident buf0 \<noteq> ident buf1 \<and>
   (\<exists>LC \<sigma>' LT RT t \<sigma>a r \<sigma>b.
      new_LinearOperatorComposition tripling doubling = Inr LC \<and>
      applyAdjoint LC buf0 buf1 st0 = Inr \<sigma>' \<and>
      T tripling = Inr LT \<and> T doubling = Inr RT \<and> call LT buf0 st0 = Inr (t, \<sigma>a) \<and>
      call RT t \<sigma>a = Inr (r, \<sigma>b) \<and> heap \<sigma>' (cell buf1) = heap \<sigma>b (cell r))"
proof -
  have h: "constructed tripling" "constructed doubling" "isLinearOperator tripling"
    "isLinearOperator doubling" "range_op doubling = domain tripling"
    "in_use st0 buf0" "in_use st0 buf1" "isMember (range_op tripling) buf0"
    "isMember (domain doubling) buf1" "ident buf0 \<noteq> ident buf1"
    by simp_all
  show ?thesis using C6_adjoint_of_composition[OF h] h by blast
qed

section \<open>Scalar multiplication of linear operators\<close>

lemma smult_vadd: "smult a (vadd xs ys) = vadd (smult a xs) (smult a ys)"
proof (induction xs arbitrary: ys)
  case Nil
  then show ?case by (simp add: smult_def vadd_def)
next
  case (Cons x xs)
  then show ?case by (cases ys) (simp_all add: smult_def vadd_def distrib_left)
qed

lemma smult_commute: "smult a (smult b xs) = smult b (smult a xs)"
  by (simp add: smult_def mult.left_commute)

lemma linear_expression_homogeneous:
  "constructed op \<Longrightarrow> isLinearOperator op \<Longrightarrow> homogeneous_leaves op \<Longrightarrow>
     forward op (smult a v) = smult a (forward op v) \<and>
     backward op (smult a v) = smult a (backward op v)"
proof (induction op arbitrary: v)
  case (ConcreteLinearOperator d r f g)
  then show ?case by (simp add: homogeneous_def)
next
  case (ConcreteSelfAdjointOperator d r f)
  then show ?case by (simp add: homogeneous_def)
next
  case (OperatorAdjoint op)
  then show ?case by simp
next
  case (LinearOperatorSum op1 op2)
  then show ?case by (simp add: smult_vadd)
next
  case (LinearOperatorComposition left right)
  then show ?case by simp
next
  case (LinearOperatorScalarMultiplication op b)
  then show ?case by (simp add: smult_commute)
qed simp_all

text \<open>
  Claim C7: for every constructed linear operator \<open>A\<close> whose concrete linear operators
  are homogeneous, every scalar \<open>a\<close> of its fields and every \<open>x\<close> in its domain, the
  left and the right scalar multiplication of \<open>A\<close> by \<open>a\<close> can be built and return
  buffers with equal contents when called on \<open>x\<close>; \<^verbatim>\<open>a * A\<close> and \<^verbatim>\<open>A * a\<close> both
  build the one combinator \<open>LinearOperatorScalarMultiplication\<close>. And the two products
  differ for an operator that is not linear: the squaring operator is constructed and not
  a \<^verbatim>\<open>LinearOperator\<close>, its left and right multiplication by 2 can be built, and
  called on the buffer in use holding \<open>[1, 1, 1]\<close> the left product returns
  \<open>[2, 2, 2]\<close> and the right product \<open>[4, 4, 4]\<close>; so there are a constructed operator
  that is not linear, a scalar of its fields and an input in use in its domain on which the
  built left and right products return different contents.
\<close>

theorem C7_left_and_right_scalar_multiplication:
  assumes "constructed A" "isLinearOperator A" "homogeneous_leaves A"
    and "a \<in> field (range_op A)" "a \<in> field (domain A)"
    and "in_use \<sigma> x" "isMember (domain A) x"
  shows "(\<exists>Lm Rm rl \<sigma>l rr \<sigma>r.
            new_OperatorLeftScalarMultiplication A a = Inr Lm \<and>
            new_OperatorRightScalarMultiplication A a = Inr Rm \<and>
            call Lm x \<sigma> = Inr (rl, \<sigma>l) \<and> call Rm x \<sigma> = Inr (rr, \<sigma>r) \<and>
            heap \<sigma>l (cell rl) = heap \<sigma>r (cell rr)) \<and>
         py_times (Number a) (Op A) = Inr (Op (LinearOperatorScalarMultiplication A a)) \<and>
         py_times (Op A) (Number a) = Inr (Op (LinearOperatorScalarMultiplication A a)) \<and>
         (constructed squaring \<and> \<not> isLinearOperator squaring \<and>
          2 \<in> field (range_op squaring) \<and> 2 \<in> field (domain squaring) \<and>
          in_use st0 buf1 \<and> isMember (domain squaring) buf1 \<and>
          heap st0 (cell buf1) = [1, 1, 1] \<and>
          (\<exists>Lm Rm rl \<sigma>l rr \<sigma>r.
             new_OperatorLeftScalarMultiplication squaring 2 = Inr Lm \<and>
             new_OperatorRightScalarMultiplication squaring 2 = Inr Rm \<and>
             call Lm buf1 st0 = Inr (rl, \<sigma>l) \<and> call Rm buf1 st0 = Inr (rr, \<sigma>r) \<and>
             heap \<sigma>l (cell rl) = [2, 2, 2] \<and> heap \<sigma>r (cell rr) = [4, 4, 4])) \<and>
         (\<exists>B b y \<tau> Lm Rm rl \<sigma>l rr \<sigma>r.
            constructed B \<and> \<not> isLinearOperator B \<and>
            b \<in> field (range_op B) \<and> b \<in> field (domain B) \<and>
            in_use \<tau> y \<and> isMember (domain B) y \<and>
            new_OperatorLeftScalarMultiplication B b = Inr Lm \<and>
            new_OperatorRightScalarMultiplication B b = Inr Rm \<and>
            call Lm y \<tau> = Inr (rl, \<sigma>l) \<and> call Rm y \<tau> = Inr (rr, \<sigma>r) \<and>
            heap \<sigma>l (cell rl) \<noteq> heap \<sigma>r (cell rr))"
proof -
  let ?L = "OperatorLeftScalarMultiplication A a"
  let ?R = "OperatorRightScalarMultiplication A a"
  have n: "new_OperatorLeftScalarMultiplication A a = Inr ?L"
    "new_OperatorRightScalarMultiplication A a = Inr ?R"
    using assms(4,5)
    by (simp_all add: new_OperatorLeftScalarMultiplication_def
        new_OperatorRightScalarMultiplication_def)
  have c: "constructed ?L" "constructed ?R" using assms(1,4,5) by simp_all
  have m: "isMember (domain ?L) x" "isMember (domain ?R) x" using assms(7) by simp_all
  obtain rl \<sigma>l where l: "call ?L x \<sigma> = Inr (rl, \<sigma>l)"
    "heap \<sigma>l (cell rl) = forward ?L (heap \<sigma> (cell x))"
    using call_sound[OF c(1) assms(6) m(1)] by blast
  obtain rr \<sigma>r where r: "call ?R x \<sigma> = Inr (rr, \<sigma>r)"
    "heap \<sigma>r (cell rr) = forward ?R (heap \<sigma> (cell x))"
    using call_sound[OF c(2) assms(6) m(2)] by blast
  have "heap \<sigma>l (cell rl) = heap \<sigma>r (cell rr)"
    using l(2) r(2) linear_expression_homogeneous[OF assms(1,2,3)] by simp
  then have first: "\<exists>Lm Rm rl \<sigma>l rr \<sigma>r.
            new_OperatorLeftScalarMultiplication A a = Inr Lm \<and>
            new_OperatorRightScalarMultiplication A a = Inr Rm \<and>
            call Lm x \<sigma> = Inr (rl, \<sigma>l) \<and> call Rm x \<sigma> = Inr (rr, \<sigma>r) \<and>
            heap \<sigma>l (cell rl) = heap \<sigma>r (cell rr)"
    using n l(1) r(1) by blast
  have both: "py_times (Number a) (Op A) = Inr (Op (LinearOperatorScalarMultiplication A a))"
    "py_times (Op A) (Number a) = Inr (Op (LinearOperatorScalarMultiplication A a))"
    using assms(2,4)
    by (simp_all add: dunder_mul_def dunder_rmul_def LinearOperator_rmul_def
        LinearOperator_mul_def new_LinearOperatorScalarMultiplication_def)
  have fl: "2 \<in> field (range_op squaring)" "2 \<in> field (domain squaring)"
    by (simp_all add: squaring_def R3_def)
  have sq: "constructed squaring" "\<not> isLinearOperator squaring"
    "in_use st0 buf1" "isMember (domain squaring) buf1"
    by simp_all
  have hb: "heap st0 (cell buf1) = [1, 1, 1]" by (simp add: st0_def buf1_def)
  have ns: "new_OperatorLeftScalarMultiplication squaring 2 =
      Inr (OperatorLeftScalarMultiplication squaring 2)"
    "new_OperatorRightScalarMultiplication squaring 2 =
      Inr (OperatorRightScalarMultiplication squaring 2)"
    using fl
    by (simp_all add: new_OperatorLeftScalarMultiplication_def
        new_OperatorRightScalarMultiplication_def)
  have cl: "\<exists>r \<sigma>'. call (OperatorLeftScalarMultiplication squaring 2) buf1 st0 = Inr (r, \<sigma>') \<and>
      heap \<sigma>' (cell r) = [2, 2, 2]"
    by (simp add: call_def apply_op_def empty_buf_def copy_def iscale_def write_buf_def smult_def
        isMember_def buf1_def st0_def squaring_def)
  have cr: "\<exists>r \<sigma>'. call (OperatorRightScalarMultiplication squaring 2) buf1 st0 = Inr (r, \<sigma>') \<and>
      heap \<sigma>' (cell r) = [4, 4, 4]"
    by (simp add: call_def apply_op_def empty_buf_def copy_def iscale_def write_buf_def smult_def
        isMember_def buf1_def st0_def squaring_def)
  obtain r1 \<sigma>1 r2 \<sigma>2 where
    d: "call (OperatorLeftScalarMultiplication squaring 2) buf1 st0 = Inr (r1, \<sigma>1)"
      "call (OperatorRightScalarMultiplication squaring 2) buf1 st0 = Inr (r2, \<sigma>2)"
      "heap \<sigma>1 (cell r1) = [2, 2, 2]" "heap \<sigma>2 (cell r2) = [4, 4, 4]"
    using cl cr by blast
  have inst: "\<exists>Lm Rm rl \<sigma>l rr \<sigma>r.
             new_OperatorLeftScalarMultiplication squaring 2 = Inr Lm \<and>
             new_OperatorRightScalarMultiplication squaring 2 = Inr Rm \<and>
             call Lm buf1 st0 = Inr (rl, \<sigma>l) \<and> call Rm buf1 st0 = Inr (rr, \<sigma>r) \<and>
             heap \<sigma>l (cell rl) = [2, 2, 2] \<and> heap \<sigma>r (cell rr) = [4, 4, 4]"
    using ns d by blast
  have concrete: "constructed squaring \<and> \<not> isLinearOperator squaring \<and>
          2 \<in> field (range_op squaring) \<and> 2 \<in> field (domain squaring) \<and>
          in_use st0 buf1 \<and> isMember (domain squaring) buf1 \<and>
          heap st0 (cell buf1) = [1, 1, 1] \<and>
          (\<exists>Lm Rm rl \<sigma>l rr \<sigma>r.
             new_OperatorLeftScalarMultiplication squaring 2 = Inr Lm \<and>
             new_OperatorRightScalarMultiplication squaring 2 = Inr Rm \<and>
             call Lm buf1 st0 = Inr (rl, \<sigma>l) \<and> call Rm buf1 st0 = Inr (rr, \<sigma>r) \<and>
             heap \<sigma>l (cell rl) = [2, 2, 2] \<and> heap \<sigma>r (cell rr) = [4, 4, 4])"
    using sq fl hb inst by blast
  have ne: "heap \<sigma>1 (cell r1) \<noteq> heap \<sigma>2 (cell r2)" using d(3,4) by simp
  have last: "\<exists>B b y \<tau> Lm Rm rl \<sigma>l rr \<sigma>r.
            constructed B \<and> \<not> isLinearOperator B \<and>
            b \<in> field (range_op B) \<and> b \<in> field (domain B) \<and>
            in_use \<tau> y \<and> isMember (domain B) y \<and>
            new_OperatorLeftScalarMultiplication B b = Inr Lm \<and>
            new_OperatorRightScalarMultiplication B b = Inr Rm \<and>
            call Lm y \<tau> = Inr (rl, \<sigma>l) \<and> call Rm y \<tau> = Inr (rr, \<sigma>r) \<and>
            heap \<sigma>l (cell rl) \<noteq> heap \<sigma>r (cell rr)"
    using sq fl ns d(1,2) ne by blast
  show ?thesis using first both concrete last by blast
qed

theorem C7_left_and_right_scalar_multiplication_witness:
  "constructed doubling \<and> isLinearOperator doubling \<and> homogeneous_leaves doubling \<and>
   2 \<in> field (range_op doubling) \<and> 2 \<in> field (domain doubling) \<and>
   in_use st0 buf1 \<and> isMember (domain doubling) buf1 \<and>
   (\<exists>Lm Rm rl \<sigma>l rr \<sigma>r.
      new_OperatorLeftScalarMultiplication doubling 2 = Inr Lm \<and>
      new_OperatorRightScalarMultiplication doubling 2 = Inr Rm \<and>
      call Lm buf1 st0 = Inr (rl, \<sigma>l) \<and> call Rm buf1 st0 = Inr (rr, \<sigma>r) \<and>
      heap \<sigma>l (cell rl) = heap \<sigma>r (cell rr)) \<and>
   py_times (Number 2) (Op doubling) = Inr (Op (LinearOperatorScalarMultiplication doubling 2)) \<and>
   py_times (Op doubling) (Number 2) = Inr (Op (LinearOperatorScalarMultiplication doubling 2)) \<and>
   (\<exists>Lm Rm rl \<sigma>l rr \<sigma>r.
      new_OperatorLeftScalarMultiplication squaring 2 = Inr Lm \<and>
      new_OperatorRightScalarMultiplication squaring 2 = Inr Rm \<and>
      call Lm buf1 st0 = Inr (rl, \<sigma>l) \<and> call Rm buf1 st0 = Inr (rr, \<sigma>r) \<and>
      heap \<sigma>l (cell rl) = [2, 2, 2] \<and> heap \<sigma>r (cell rr) = [4, 4, 4])"
proof -
  have hl: "homogeneous_leaves doubling"
    by (simp add: doubling_def homogeneous_def smult_def)
  have fl: "2 \<in> field (range_op doubling)" "2 \<in> field (domain doubling)"
    by (simp_all add: doubling_def R3_def)
  have h: "constructed doubling" "isLinearOperator doubling" "homogeneous_leaves doubling"
    "2 \<in> field (range_op doubling)" "2 \<in> field (domain doubling)"
    "in_use st0 buf1" "isMember (domain doubling) buf1"
    using hl fl by simp_all
  show ?thesis using C7_left_and_right_scalar_multiplication[OF h] h by blast
qed

end
